theory Spec2Isabelle
  imports Main
begin

section \<open>Errors and status codes\<close>

text \<open>
  The gRPC status codes the handlers use, and Go's \<open>error\<close> values: the two sentinels the
  handlers compare against (\<open>datastore.ErrNoSuchEntity\<close>, \<open>iterator.Done\<close>), any other
  error by its message, and a status error built by \<open>status.Error(code, msg)\<close>.
  A nil error is \<open>None :: error option\<close>.
\<close>

datatype codes = InvalidArgument | NotFound | AlreadyExists | Internal

datatype error =
    ErrNoSuchEntity
  | Done
  | Err string
  | Status codes string

fun code_name :: "codes \<Rightarrow> string" where
  "code_name InvalidArgument = ''InvalidArgument''"
| "code_name NotFound = ''NotFound''"
| "code_name AlreadyExists = ''AlreadyExists''"
| "code_name Internal = ''Internal''"

text \<open>\<open>err.Error()\<close>: the message of an error value.\<close>

fun Error :: "error \<Rightarrow> string" where
  "Error ErrNoSuchEntity = ''datastore: no such entity''"
| "Error Done = ''no more items in iterator''"
| "Error (Err msg) = msg"
| "Error (Status c msg) = ''rpc error: code = '' @ code_name c @ '' desc = '' @ msg"

text \<open>
  Modelled from the spec: \<open>internalError\<close> and \<open>invalidArgumentError\<close> (package server) are not
  among the sources. Section 7 of the spec: a fault not otherwise classified is surfaced as
  a generic internal condition with the original cause attached; a malformed argument is
  surfaced as an invalid-argument condition. A nil error stays nil (DeleteProject returns
  \<open>internalError(err)\<close> as its error also when the delete succeeded).
\<close>

fun internalError :: "error option \<Rightarrow> error option" where
  "internalError None = None"
| "internalError (Some err) = Some (Status Internal (Error err))"

fun invalidArgumentError :: "error option \<Rightarrow> error option" where
  "invalidArgumentError None = None"
| "invalidArgumentError (Some err) = Some (Status InvalidArgument (Error err))"

section \<open>Data\<close>

text \<open>
  \<open>models.Project\<close> (the stored entity) and \<open>rpc.Project\<close> (the wire message). The sources
  read \<open>ProjectID\<close>, \<open>CreateTime\<close> and \<open>UpdateTime\<close> of the entity; the display name and the
  description are its payload. A \<open>time.Time\<close> is an instant, a natural number.
\<close>

type_synonym time = nat

record Project =
  ProjectID :: string
  DisplayName :: string
  Description :: string
  CreateTime :: time
  UpdateTime :: time

record rpc_Project =
  pb_Name :: string
  pb_DisplayName :: string
  pb_Description :: string
  pb_CreateTime :: time
  pb_UpdateTime :: time

text \<open>The generated getter \<open>GetName\<close> is nil-safe: on a nil message it returns the empty string.\<close>

fun GetName :: "rpc_Project option \<Rightarrow> string" where
  "GetName None = []"
| "GetName (Some m) = pb_Name m"

record CreateProjectRequest =
  cr_ProjectId :: string
  cr_Project :: "rpc_Project option"

record GetProjectRequest =
  get_Name :: string

record DeleteProjectRequest =
  del_Name :: string

record UpdateProjectRequest =
  upd_Project :: "rpc_Project option"

record ListProjectsRequest =
  ls_PageSize :: int
  ls_PageToken :: string
  ls_Filter :: string

record ListProjectsResponse =
  Projects :: "rpc_Project option list"
  NextPageToken :: string

datatype Empty = Empty

section \<open>The storage collaborator\<close>

text \<open>
  \<open>datastore.Key\<close>, \<open>datastore.Query\<close> and the state of the store: the entities by key, and
  the writes the handlers attempted, in order (a ghost field: it records that \<open>Put\<close> or
  \<open>Delete\<close> was called, whether or not the call succeeded).
\<close>

record Key =
  Kind :: string
  Name :: string

datatype call = PutCall Key Project | DeleteCall Key

record datastore =
  entities :: "Key \<rightharpoonup> Project"
  attempts :: "call list"

record Query =
  q_kind :: string
  q_start :: string
  q_distinct :: bool

definition NewQuery :: "string \<Rightarrow> Query" where
  "NewQuery kind = \<lparr>q_kind = kind, q_start = [], q_distinct = False\<rparr>"

definition Distinct :: "Query \<Rightarrow> Query" where
  "Distinct q = q\<lparr>q_distinct := True\<rparr>"

text \<open>
  What the environment does during one call: whether \<open>newDataStoreClient\<close> fails, the fault
  (if any) the store injects into the call's \<open>Get\<close>, \<open>Put\<close> and \<open>Delete\<close>, and the results
  the iterator of \<open>client.Run\<close> yields for a query (each an entity or an error; after the
  last one the iterator returns \<open>iterator.Done\<close>).
\<close>

record env =
  newDataStoreClient :: "error option"
  getErr :: "error option"
  putErr :: "error option"
  deleteErr :: "error option"
  run :: "Query \<Rightarrow> (error + Project) list"

definition client_Get :: "env \<Rightarrow> datastore \<Rightarrow> Key \<Rightarrow> error + Project" where
  "client_Get e ds k =
     (case getErr e of
        Some err \<Rightarrow> Inl err
      | None \<Rightarrow> (case entities ds k of None \<Rightarrow> Inl ErrNoSuchEntity | Some p \<Rightarrow> Inr p))"

definition client_Put :: "env \<Rightarrow> datastore \<Rightarrow> Key \<Rightarrow> Project \<Rightarrow> error option \<times> datastore" where
  "client_Put e ds k p =
     (case putErr e of
        Some err \<Rightarrow> (Some err, ds\<lparr>attempts := attempts ds @ [PutCall k p]\<rparr>)
      | None \<Rightarrow>
          (None, ds\<lparr>entities := (entities ds)(k \<mapsto> p), attempts := attempts ds @ [PutCall k p]\<rparr>))"

definition client_Delete :: "env \<Rightarrow> datastore \<Rightarrow> Key \<Rightarrow> error option \<times> datastore" where
  "client_Delete e ds k =
     (case deleteErr e of
        Some err \<Rightarrow> (Some err, ds\<lparr>attempts := attempts ds @ [DeleteCall k]\<rparr>)
      | None \<Rightarrow>
          (None, ds\<lparr>entities := (entities ds)(k := None), attempts := attempts ds @ [DeleteCall k]\<rparr>))"

section \<open>Helpers of the repository that are not among the sources\<close>

text \<open>
  A compiled filter (\<open>cel.Program\<close>): \<open>Eval\<close> takes the bindings of the field names and gives
  an error or a value; the handler asserts that the value is a bool.
\<close>

datatype val = BoolVal bool | StringVal string

type_synonym program = "(string \<rightharpoonup> string) \<Rightarrow> error + val"

datatype filterArgType = filterArgTypeString

type_synonym filterArg = "string \<times> filterArgType"

text \<open>
  The handlers call these functions of packages models and server; their code is not among
  the sources, so the handlers take them as parameters. A function that returns
  \<open>(value, error)\<close> gives \<open>Inl\<close> of the error or \<open>Inr\<close> of the value; \<open>Update\<close> changes its
  receiver and returns an error or nil; \<open>Message\<close> returns both a message and an error, and
  ListProjects reads the message whatever the error is.
\<close>

record helpers =
  ProjectEntityName :: string
  NewProjectFromProjectID :: "string \<Rightarrow> error + Project"
  NewProjectFromResourceName :: "string \<Rightarrow> error + Project"
  ResourceName :: "Project \<Rightarrow> string"
  Update :: "Project \<Rightarrow> rpc_Project option \<Rightarrow> Project \<times> error option"
  Message :: "Project \<Rightarrow> rpc_Project option \<times> error option"
  DeleteChildren :: "Project \<Rightarrow> datastore \<Rightarrow> datastore"
  queryApplyCursor :: "Query \<Rightarrow> string \<Rightarrow> error + Query"
  createFilterOperator :: "string \<Rightarrow> filterArg list \<Rightarrow> error + program option"
  boundPageSize :: "int \<Rightarrow> int"
  iteratorGetCursor :: "(error + Project) list \<Rightarrow> int \<Rightarrow> error + string"

section \<open>The project handlers\<close>

text \<open>
  A handler returns Go's pair \<open>(response, error)\<close> as a pair of options, and the store as the
  call leaves it. The call succeeded when the error is \<open>None\<close>.
\<close>

definition CreateProject ::
  "helpers \<Rightarrow> env \<Rightarrow> datastore \<Rightarrow> CreateProjectRequest
     \<Rightarrow> (rpc_Project option \<times> error option) \<times> datastore" where
  "CreateProject h e ds request =
     (case newDataStoreClient e of
        Some err \<Rightarrow> ((None, internalError (Some err)), ds)
      | None \<Rightarrow>
        (case NewProjectFromProjectID h (cr_ProjectId request) of
           Inl err \<Rightarrow> ((None, invalidArgumentError (Some err)), ds)
         | Inr project \<Rightarrow>
           (let k = \<lparr>Kind = ProjectEntityName h, Name = ResourceName h project\<rparr> in
            case client_Get e ds k of
              Inr existingProject \<Rightarrow>
                ((None, Some (Status AlreadyExists (ResourceName h project @ '' already exists''))), ds)
            | Inl _ \<Rightarrow>
                (case Update h project (cr_Project request) of
                   (project1, _) \<Rightarrow>
                     (let project2 = project1\<lparr>CreateTime := UpdateTime project1\<rparr> in
                      case client_Put e ds k project2 of
                        (Some err, ds') \<Rightarrow> ((None, internalError (Some err)), ds')
                      | (None, ds') \<Rightarrow> (Message h project2, ds'))))))"

definition DeleteProject ::
  "helpers \<Rightarrow> env \<Rightarrow> datastore \<Rightarrow> DeleteProjectRequest
     \<Rightarrow> (Empty option \<times> error option) \<times> datastore" where
  "DeleteProject h e ds request =
     (case newDataStoreClient e of
        Some err \<Rightarrow> ((None, internalError (Some err)), ds)
      | None \<Rightarrow>
        (case NewProjectFromResourceName h (del_Name request) of
           Inl err \<Rightarrow> ((None, invalidArgumentError (Some err)), ds)
         | Inr project \<Rightarrow>
           (let ds1 = DeleteChildren h project ds;
                k = \<lparr>Kind = ProjectEntityName h, Name = del_Name request\<rparr>
            in case client_Delete e ds1 k of
                 (err, ds2) \<Rightarrow> ((Some Empty, internalError err), ds2))))"

definition GetProject ::
  "helpers \<Rightarrow> env \<Rightarrow> datastore \<Rightarrow> GetProjectRequest \<Rightarrow> rpc_Project option \<times> error option" where
  "GetProject h e ds request =
     (case newDataStoreClient e of
        Some err \<Rightarrow> (None, internalError (Some err))
      | None \<Rightarrow>
        (case NewProjectFromResourceName h (get_Name request) of
           Inl err \<Rightarrow> (None, invalidArgumentError (Some err))
         | Inr project \<Rightarrow>
           (let k = \<lparr>Kind = ProjectEntityName h, Name = ResourceName h project\<rparr> in
            case client_Get e ds k of
              Inl err \<Rightarrow>
                (if err = ErrNoSuchEntity then (None, Some (Status NotFound ''not found''))
                 else (None, internalError (Some err)))
            | Inr project' \<Rightarrow> Message h project')))"

definition UpdateProject ::
  "helpers \<Rightarrow> env \<Rightarrow> datastore \<Rightarrow> UpdateProjectRequest
     \<Rightarrow> (rpc_Project option \<times> error option) \<times> datastore" where
  "UpdateProject h e ds request =
     (case newDataStoreClient e of
        Some err \<Rightarrow> ((None, internalError (Some err)), ds)
      | None \<Rightarrow>
        (case NewProjectFromResourceName h (GetName (upd_Project request)) of
           Inl err \<Rightarrow> ((None, invalidArgumentError (Some err)), ds)
         | Inr project \<Rightarrow>
           (let k = \<lparr>Kind = ProjectEntityName h, Name = ResourceName h project\<rparr> in
            case client_Get e ds k of
              Inl _ \<Rightarrow> ((None, Some (Status NotFound ''not found'')), ds)
            | Inr project' \<Rightarrow>
                (case Update h project' (upd_Project request) of
                   (_, Some err) \<Rightarrow> ((None, internalError (Some err)), ds)
                 | (project1, None) \<Rightarrow>
                     (case client_Put e ds k project1 of
                        (Some err, ds') \<Rightarrow> ((None, internalError (Some err)), ds')
                      | (None, ds') \<Rightarrow> (Message h project1, ds'))))))"

subsection \<open>ListProjects\<close>

text \<open>
  How a call can end other than by returning: a run-time panic (a failed type assertion, a
  slice bound out of range) or the end of the process (\<open>log.Fatal\<close>).
\<close>

datatype 'a outcome = Returns 'a | Panics | Exits

text \<open>
  Lines 105 to 115 of ListProjects: what the filter decides for one record. With no program
  the record is kept. Otherwise the program is evaluated with \<open>project_id\<close> bound to the
  record's \<open>ProjectID\<close>; an error ends the call, and \<open>out.Value().(bool)\<close> panics on a value
  that is not a bool.
\<close>

datatype filter_step = Keep | Skip | Fault error | NotBool

definition filter_step :: "program option \<Rightarrow> Project \<Rightarrow> filter_step" where
  "filter_step prg project =
     (case prg of
        None \<Rightarrow> Keep
      | Some p \<Rightarrow>
          (case p [''project_id'' \<mapsto> ProjectID project] of
             Inl err \<Rightarrow> Fault err
           | Inr (BoolVal out) \<Rightarrow> if \<not> out then Skip else Keep
           | Inr (StringVal _) \<Rightarrow> NotBool))"

text \<open>
  The loop of ListProjects over the iterator's results. It ends when \<open>it.Next\<close> returns an
  error (\<open>iterator.Done\<close> after the last result) or at the \<open>break\<close>, with the messages
  collected, the loop's \<open>err\<close> and the results the iterator has left; or it returns from
  inside the loop; or it panics.
\<close>

datatype loop_exit =
    LoopEnd "rpc_Project option list" "error option" "(error + Project) list"
  | LoopReturn "error option"
  | LoopPanic

fun list_loop ::
  "helpers \<Rightarrow> program option \<Rightarrow> int \<Rightarrow> (error + Project) list \<Rightarrow> rpc_Project option list
     \<Rightarrow> loop_exit" where
  "list_loop h prg pageSize [] projectMessages = LoopEnd projectMessages (Some Done) []"
| "list_loop h prg pageSize (Inl err # it) projectMessages = LoopEnd projectMessages (Some err) it"
| "list_loop h prg pageSize (Inr project # it) projectMessages =
     (case filter_step prg project of
        Fault err \<Rightarrow> LoopReturn (invalidArgumentError (Some err))
      | NotBool \<Rightarrow> LoopPanic
      | Skip \<Rightarrow> list_loop h prg pageSize it projectMessages
      | Keep \<Rightarrow>
          (let projectMessages' = projectMessages @ [fst (Message h project)] in
           if int (length projectMessages') = pageSize then LoopEnd projectMessages' None it
           else list_loop h prg pageSize it projectMessages'))"

definition ListProjects ::
  "helpers \<Rightarrow> env \<Rightarrow> ListProjectsRequest \<Rightarrow> (ListProjectsResponse option \<times> error option) outcome" where
  "ListProjects h e req =
     (case newDataStoreClient e of
        Some err \<Rightarrow> Returns (None, internalError (Some err))
      | None \<Rightarrow>
        (case queryApplyCursor h (NewQuery (ProjectEntityName h)) (ls_PageToken req) of
           Inl err \<Rightarrow> Returns (None, internalError (Some err))
         | Inr q \<Rightarrow>
           (case createFilterOperator h (ls_Filter req)
                   [(''project_id'', filterArgTypeString), (''availability'', filterArgTypeString)] of
              Inl err \<Rightarrow> Returns (None, internalError (Some err))
            | Inr prg \<Rightarrow>
              (case list_loop h prg (boundPageSize h (ls_PageSize req)) (run e (Distinct q)) [] of
                 LoopPanic \<Rightarrow> Panics
               | LoopReturn err \<Rightarrow> Returns (None, err)
               | LoopEnd projectMessages err it \<Rightarrow>
                   if err \<noteq> None \<and> err \<noteq> Some Done then Returns (None, internalError err)
                   else
                     (case iteratorGetCursor h it (int (length projectMessages)) of
                        Inl err \<Rightarrow> Returns (None, internalError (Some err))
                      | Inr token \<Rightarrow>
                          Returns (Some \<lparr>Projects = projectMessages, NextPageToken = token\<rparr>, None))))))"

text \<open>
  What the filter means for a record, stated by the program's value and not by the loop: a
  record \<open>passes\<close> when there is no program, or when the program, given the record's
  \<open>project_id\<close>, evaluates to true; the filter \<open>decides\<close> a record when there is no program, or
  when the program evaluates to a bool (true or false) without an error.
\<close>

definition passes :: "program option \<Rightarrow> Project \<Rightarrow> bool" where
  "passes prg project =
     (case prg of
        None \<Rightarrow> True
      | Some p \<Rightarrow> p [''project_id'' \<mapsto> ProjectID project] = Inr (BoolVal True))"

definition decides :: "program option \<Rightarrow> Project \<Rightarrow> bool" where
  "decides prg project =
     (case prg of
        None \<Rightarrow> True
      | Some p \<Rightarrow> p [''project_id'' \<mapsto> ProjectID project] = Inr (BoolVal True)
                \<or> p [''project_id'' \<mapsto> ProjectID project] = Inr (BoolVal False))"

text \<open>The schema ListProjects declares for its filter (lines 93 to 96).\<close>

definition project_filter_args :: "filterArg list" where
  "project_filter_args =
     [(''project_id'', filterArgTypeString), (''availability'', filterArgTypeString)]"

section \<open>The compile command\<close>

text \<open>
  \<open>strings.Split\<close> by a separator of one character (the source splits by \<open>"/"\<close> only) and
  \<open>strings.Join\<close>. A string with n separators splits into n + 1 parts; the empty string
  splits into one empty part.
\<close>

fun Split :: "string \<Rightarrow> char \<Rightarrow> string list" where
  "Split [] sep = [[]]"
| "Split (c # cs) sep =
     (if c = sep then [] # Split cs sep
      else (case Split cs sep of [] \<Rightarrow> [[c]] | p # ps \<Rightarrow> (c # p) # ps))"

fun Join :: "string list \<Rightarrow> string \<Rightarrow> string" where
  "Join [] sep = []"
| "Join [p] sep = p"
| "Join (p # q # ps) sep = p @ sep @ Join (q # ps) sep"

text \<open>
  The slice \<open>parts[0:len(parts)-2]\<close> panics when its upper bound is negative.
\<close>

definition ParentNameFromResourceName :: "string \<Rightarrow> string outcome" where
  "ParentNameFromResourceName name =
     (let parts = Split name (CHR ''/'') in
      if int (length parts) - 2 < 0 then Panics
      else Returns (Join (take (nat (int (length parts) - 2)) parts) ''/''))"

datatype SpecView = SpecView_FULL

record Spec =
  sp_Name :: string
  sp_Style :: string
  sp_Contents :: string

record GetSpecRequest =
  gs_Name :: string
  gs_View :: SpecView

record CreateSpecRequest =
  cs_Parent :: string
  cs_SpecId :: string
  cs_Spec :: Spec

text \<open>
  What compileSpec and uploadBytesForSpec call: the registry client (\<open>GetSpec\<close>,
  \<open>CreateSpec\<close>), the spec compiler library (\<open>ReadInfoFromBytes\<close>, the two \<open>NewDocument\<close>
  functions), \<open>proto.Marshal\<close>, the gzip writer (\<open>gzip\<close>: writing and closing it, which give
  the compressed bytes or an error), and the helpers \<open>resourceNameOfSpec\<close> and
  \<open>getBytesForSpec\<close> of the command, which are not among the sources.
\<close>

record ('info, 'doc) compile_env =
  resourceNameOfSpec :: "string list \<Rightarrow> string"
  GetSpec :: "GetSpecRequest \<Rightarrow> error + Spec"
  getBytesForSpec :: "Spec \<Rightarrow> error + string"
  ReadInfoFromBytes :: "string \<Rightarrow> string \<Rightarrow> error + 'info"
  openapi_v2_NewDocument :: "'info \<Rightarrow> error + 'doc"
  openapi_v3_NewDocument :: "'info \<Rightarrow> error + 'doc"
  Marshal :: "'doc \<Rightarrow> string \<times> error option"
  gzip :: "string \<Rightarrow> error + string"
  CreateSpec :: "CreateSpecRequest \<Rightarrow> error option"

definition HasPrefix :: "string \<Rightarrow> string \<Rightarrow> bool" where
  "HasPrefix s pre = (take (length pre) s = pre)"

text \<open>
  uploadBytesForSpec and compileSpec return their error (or end otherwise) together with
  the \<open>CreateSpec\<close> requests they sent, in order.
\<close>

definition uploadBytesForSpec ::
  "('info, 'doc) compile_env \<Rightarrow> string \<Rightarrow> string \<Rightarrow> string \<Rightarrow> 'doc
     \<Rightarrow> error option outcome \<times> CreateSpecRequest list" where
  "uploadBytesForSpec c parent specID style document =
     (case Marshal c document of
        (messageData, _) \<Rightarrow>
          (case gzip c messageData of
             Inl err \<Rightarrow> (Exits, [])
           | Inr buf \<Rightarrow>
               (let request = \<lparr>cs_Parent = parent, cs_SpecId = specID,
                               cs_Spec = \<lparr>sp_Name = [], sp_Style = style, sp_Contents = buf\<rparr>\<rparr>
                in (Returns (CreateSpec c request), [request]))))"

text \<open>The second block of compileSpec (line 102 on), entered when the first one falls through.\<close>

definition compileSpec_v3 ::
  "('info, 'doc) compile_env \<Rightarrow> Spec \<Rightarrow> error option outcome \<times> CreateSpecRequest list" where
  "compileSpec_v3 c spec =
     (if HasPrefix (sp_Style spec) ''openapi/v3'' then
        (case getBytesForSpec c spec of
           Inl err \<Rightarrow> (Returns None, [])
         | Inr data \<Rightarrow>
             (case ReadInfoFromBytes c (sp_Name spec) data of
                Inl err \<Rightarrow> (Returns (Some err), [])
              | Inr info \<Rightarrow>
                  (case openapi_v3_NewDocument c info of
                     Inl err \<Rightarrow> (Returns (Some err), [])
                   | Inr document \<Rightarrow>
                       (case ParentNameFromResourceName (sp_Name spec) of
                          Panics \<Rightarrow> (Panics, [])
                        | Exits \<Rightarrow> (Exits, [])
                        | Returns parent \<Rightarrow>
                            (case uploadBytesForSpec c parent ''openapi.pb'' (sp_Style spec) document of
                               (Returns None, sent) \<Rightarrow> (Returns None, sent)
                             | (r, sent) \<Rightarrow> (r, sent))))))
      else (Returns None, []))"

definition compileSpec ::
  "('info, 'doc) compile_env \<Rightarrow> string list \<Rightarrow> error option outcome \<times> CreateSpecRequest list" where
  "compileSpec c segments =
     (if segments = [] then (Panics, [])
      else
        (let name = resourceNameOfSpec c (tl segments);
             request = \<lparr>gs_Name = name, gs_View = SpecView_FULL\<rparr>
         in case GetSpec c request of
              Inl err \<Rightarrow> (Returns (Some err), [])
            | Inr spec \<Rightarrow>
                if HasPrefix (sp_Style spec) ''openapi/v2'' then
                  (case getBytesForSpec c spec of
                     Inl err \<Rightarrow> (Returns None, [])
                   | Inr data \<Rightarrow>
                       (case ReadInfoFromBytes c (sp_Name spec) data of
                          Inl err \<Rightarrow> (Returns (Some err), [])
                        | Inr info \<Rightarrow>
                            (case openapi_v2_NewDocument c info of
                               Inl err \<Rightarrow> (Returns (Some err), [])
                             | Inr document \<Rightarrow>
                                 (case ParentNameFromResourceName (sp_Name spec) of
                                    Panics \<Rightarrow> (Panics, [])
                                  | Exits \<Rightarrow> (Exits, [])
                                  | Returns parent \<Rightarrow>
                                      (case uploadBytesForSpec c parent ''swagger.pb'' (sp_Style spec) document of
                                         (Returns None, sent) \<Rightarrow>
                                           (case compileSpec_v3 c spec of
                                              (r, sent') \<Rightarrow> (r, sent @ sent'))
                                       | (r, sent) \<Rightarrow> (r, sent))))))
                else compileSpec_v3 c spec))"

section \<open>Update, as the spec describes it\<close>

text \<open>
  Modelled from the spec: \<open>(models.Project).Update\<close> is not among the sources. Section 4.4
  of the spec: Update applies the supplied field mutations, preserving \<open>createTime\<close> and
  refreshing \<open>updateTime\<close>; a failure during field application (an invalid field value)
  aborts. The spec leaves open which values are invalid: \<open>invalid\<close> gives the error for a
  message, if any. \<open>now\<close> is the clock's reading.
\<close>

definition Project_Update ::
  "time \<Rightarrow> (rpc_Project option \<Rightarrow> error option) \<Rightarrow> Project \<Rightarrow> rpc_Project option
     \<Rightarrow> Project \<times> error option" where
  "Project_Update now invalid project message =
     (case invalid message of
        Some err \<Rightarrow> (project, Some err)
      | None \<Rightarrow>
          (project\<lparr>DisplayName := (case message of None \<Rightarrow> [] | Some m \<Rightarrow> pb_DisplayName m),
                   Description := (case message of None \<Rightarrow> [] | Some m \<Rightarrow> pb_Description m),
                   UpdateTime := now\<rparr>, None))"

section \<open>Instances for concrete inputs\<close>

text \<open>
  An instance of the helpers, to run the handlers on concrete inputs. It follows the spec
  where the spec describes a helper: a project's name is \<open>projects/\<close> and a non-empty
  identifier; an empty page token starts the scan and a malformed one fails to decode; an
  empty filter compiles to no program and a reference to an undeclared field fails to
  compile; the page size is clamped, with a default for a size that is not positive. Its
  cursors are decimal. Its filter language is one comparison, a declared field \<open>==\<close> a string
  literal in double quotes (\<open>quoted\<close> writes one), as in the expression language of the
  handler's filter; a bare word in place of the literal is an undeclared reference, and a
  declared field that the evaluation finds unbound is an evaluation error.
\<close>

definition quoted :: "string \<Rightarrow> string" where
  "quoted s = CHR 0x22 # s @ [CHR 0x22]"

definition string_literal :: "string \<Rightarrow> string option" where
  "string_literal lit =
     (if 2 \<le> length lit \<and> hd lit = CHR 0x22 \<and> last lit = CHR 0x22
         \<and> CHR 0x22 \<notin> set (butlast (tl lit))
      then Some (butlast (tl lit)) else None)"

definition valid_id :: "string \<Rightarrow> bool" where
  "valid_id s = (s \<noteq> [] \<and> CHR ''/'' \<notin> set s)"

definition sample_compile :: "string \<Rightarrow> filterArg list \<Rightarrow> error + program option" where
  "sample_compile expr args =
     (if expr = [] then Inr None
      else
        (let field = takeWhile (\<lambda>c. c \<noteq> CHR '' '') expr;
             rest = dropWhile (\<lambda>c. c \<noteq> CHR '' '') expr
         in if take 4 rest \<noteq> '' == '' then Inl (Err ''syntax error'')
            else if field \<notin> fst ` set args then Inl (Err (''undeclared reference to '' @ field))
            else
              (case string_literal (drop 4 rest) of
                 None \<Rightarrow> Inl (Err (''undeclared reference to '' @ drop 4 rest))
               | Some lit \<Rightarrow>
                   Inr (Some (\<lambda>vars. case vars field of
                                        None \<Rightarrow> Inl (Err (''no such attribute: '' @ field))
                                      | Some v \<Rightarrow> Inr (BoolVal (v = lit)))))))"

definition sample_helpers :: "time \<Rightarrow> (rpc_Project option \<Rightarrow> error option) \<Rightarrow> helpers" where
  "sample_helpers now invalid =
     \<lparr>ProjectEntityName = ''Project'',
      NewProjectFromProjectID = (\<lambda>pid.
        if valid_id pid
        then Inr \<lparr>ProjectID = pid, DisplayName = [], Description = [], CreateTime = 0, UpdateTime = 0\<rparr>
        else Inl (Err ''invalid id'')),
      NewProjectFromResourceName = (\<lambda>name.
        if take 9 name = ''projects/'' \<and> valid_id (drop 9 name)
        then Inr \<lparr>ProjectID = drop 9 name, DisplayName = [], Description = [], CreateTime = 0, UpdateTime = 0\<rparr>
        else Inl (Err ''invalid project name'')),
      ResourceName = (\<lambda>p. ''projects/'' @ ProjectID p),
      Update = Project_Update now invalid,
      Message = (\<lambda>p. (Some \<lparr>pb_Name = ''projects/'' @ ProjectID p, pb_DisplayName = DisplayName p,
                                pb_Description = Description p, pb_CreateTime = CreateTime p,
                                pb_UpdateTime = UpdateTime p\<rparr>, None)),
      DeleteChildren = (\<lambda>p ds. ds\<lparr>entities := (\<lambda>k.
        if take (length (ProjectID p) + 10) (Name k) = ''projects/'' @ ProjectID p @ ''/'' then None
        else entities ds k)\<rparr>),
      queryApplyCursor = (\<lambda>q token.
        if token = [] then Inr q
        else if list_all (\<lambda>c. c \<in> set ''0123456789'') token then Inr (q\<lparr>q_start := token\<rparr>)
        else Inl (Err ''invalid cursor'')),
      createFilterOperator = sample_compile,
      boundPageSize = (\<lambda>s. if s > 1000 then 1000 else if s \<le> 0 then 50 else s),
      iteratorGetCursor = (\<lambda>it n. Inr (if it = [] then [] else ''1''))\<rparr>"

definition healthy :: env where
  "healthy = \<lparr>newDataStoreClient = None, getErr = None, putErr = None, deleteErr = None,
              run = (\<lambda>q. [])\<rparr>"

definition empty_store :: datastore where
  "empty_store = \<lparr>entities = Map.empty, attempts = []\<rparr>"

text \<open>
  An instance of what the compile command calls, to run compileSpec on concrete inputs: a
  registry that holds one spec, a fetch of the contents that fails when the spec has none,
  a compiler and a compressor that pass the bytes through, and an upload that succeeds.
\<close>

definition sample_compile_env :: "Spec \<Rightarrow> (string, string) compile_env" where
  "sample_compile_env stored =
     \<lparr>resourceNameOfSpec = (\<lambda>segs. case segs of
          [p, a, v, s] \<Rightarrow> ''projects/'' @ p @ ''/apis/'' @ a @ ''/versions/'' @ v @ ''/specs/'' @ s
        | _ \<Rightarrow> []),
      GetSpec = (\<lambda>r. if gs_Name r = sp_Name stored then Inr stored
                       else Inl (Status NotFound ''not found'')),
      getBytesForSpec = (\<lambda>s. if sp_Contents s = [] then Inl (Err ''no contents'')
                               else Inr (sp_Contents s)),
      ReadInfoFromBytes = (\<lambda>name data. Inr data),
      openapi_v2_NewDocument = (\<lambda>info. Inr info),
      openapi_v3_NewDocument = (\<lambda>info. Inr info),
      Marshal = (\<lambda>document. (document, None)),
      gzip = (\<lambda>data. Inr data),
      CreateSpec = (\<lambda>r. None)\<rparr>"

section \<open>Properties of the project handlers\<close>

lemma internalError_code: "internalError err \<noteq> Some (Status NotFound m)"
  by (cases err) simp_all

text \<open>
  Claim C1, as the code has it. Take a request whose name parses, a client that opens, and
  a key that holds no record. GetProject returns not-found when the store answers the read
  (with its no-such-entity error), and an internal condition when the read fails with any
  other error. UpdateProject returns not-found, whatever error the read gives, and leaves
  the store as it was. DeleteProject makes no existence check: it returns the empty
  acknowledgment together with \<open>internalError\<close> of what the store's delete returned, so it
  succeeds when the delete reports no fault and never returns not-found.
\<close>

theorem C1_absent_key:
  assumes "newDataStoreClient e = None"
    and "NewProjectFromResourceName h name = Inr project"
    and "entities ds \<lparr>Kind = ProjectEntityName h, Name = ResourceName h project\<rparr> = None"
  shows "(getErr e = None \<longrightarrow>
            GetProject h e ds \<lparr>get_Name = name\<rparr> = (None, Some (Status NotFound ''not found'')))
       \<and> (\<forall>err. getErr e = Some err \<and> err \<noteq> ErrNoSuchEntity \<longrightarrow>
            GetProject h e ds \<lparr>get_Name = name\<rparr> = (None, Some (Status Internal (Error err))))
       \<and> (\<forall>m. GetName m = name \<longrightarrow>
            UpdateProject h e ds \<lparr>upd_Project = m\<rparr> = ((None, Some (Status NotFound ''not found'')), ds))
       \<and> fst (DeleteProject h e ds \<lparr>del_Name = name\<rparr>) = (Some Empty, internalError (deleteErr e))
       \<and> (\<forall>m. snd (fst (DeleteProject h e ds \<lparr>del_Name = name\<rparr>)) \<noteq> Some (Status NotFound m))"
proof -
  let ?k = "\<lparr>Kind = ProjectEntityName h, Name = ResourceName h project\<rparr>"
  have get_absent: "getErr e = None \<Longrightarrow> client_Get e ds ?k = Inl ErrNoSuchEntity"
    using assms(3) by (simp add: client_Get_def)
  have get_fault: "\<And>err. getErr e = Some err \<Longrightarrow> client_Get e ds ?k = Inl err"
    by (simp add: client_Get_def)
  have get_any: "\<exists>err. client_Get e ds ?k = Inl err"
    using assms(3) by (simp add: client_Get_def split: option.splits)
  have g1: "getErr e = None \<longrightarrow>
      GetProject h e ds \<lparr>get_Name = name\<rparr> = (None, Some (Status NotFound ''not found''))"
    using assms(1,2) get_absent by (simp add: GetProject_def Let_def)
  have g2: "\<forall>err. getErr e = Some err \<and> err \<noteq> ErrNoSuchEntity \<longrightarrow>
      GetProject h e ds \<lparr>get_Name = name\<rparr> = (None, Some (Status Internal (Error err)))"
    using assms(1,2) get_fault by (simp add: GetProject_def Let_def)
  have u: "\<forall>m. GetName m = name \<longrightarrow>
      UpdateProject h e ds \<lparr>upd_Project = m\<rparr> = ((None, Some (Status NotFound ''not found'')), ds)"
    using assms(1,2) get_any by (auto simp add: UpdateProject_def Let_def)
  have d: "fst (DeleteProject h e ds \<lparr>del_Name = name\<rparr>) = (Some Empty, internalError (deleteErr e))"
    using assms(1,2) by (simp add: DeleteProject_def client_Delete_def Let_def split: option.splits)
  have d': "\<forall>m. snd (fst (DeleteProject h e ds \<lparr>del_Name = name\<rparr>)) \<noteq> Some (Status NotFound m)"
    using d internalError_code by simp
  from g1 g2 u d d' show ?thesis by blast
qed

text \<open>
  C1 at a concrete input: the sample helpers, an empty store, the name \<open>projects/ghost\<close>,
  once with a healthy store and once with a read that fails.
\<close>

theorem C1_absent_key_witness:
  "newDataStoreClient healthy = None
   \<and> entities empty_store \<lparr>Kind = ''Project'', Name = ''projects/ghost''\<rparr> = None
   \<and> GetProject (sample_helpers 0 (\<lambda>m. None)) healthy empty_store \<lparr>get_Name = ''projects/ghost''\<rparr>
       = (None, Some (Status NotFound ''not found''))
   \<and> GetProject (sample_helpers 0 (\<lambda>m. None)) (healthy\<lparr>getErr := Some (Err ''deadline exceeded'')\<rparr>)
         empty_store \<lparr>get_Name = ''projects/ghost''\<rparr>
       = (None, Some (Status Internal ''deadline exceeded''))
   \<and> UpdateProject (sample_helpers 0 (\<lambda>m. None)) healthy empty_store
         \<lparr>upd_Project = Some \<lparr>pb_Name = ''projects/ghost'', pb_DisplayName = ''Ghost'',
                                pb_Description = [], pb_CreateTime = 0, pb_UpdateTime = 0\<rparr>\<rparr>
       = ((None, Some (Status NotFound ''not found'')), empty_store)
   \<and> fst (DeleteProject (sample_helpers 0 (\<lambda>m. None)) healthy empty_store \<lparr>del_Name = ''projects/ghost''\<rparr>)
       = (Some Empty, None)"
proof -
  let ?h = "sample_helpers 0 (\<lambda>m. None)"
  let ?p = "\<lparr>ProjectID = ''ghost'', DisplayName = [], Description = [], CreateTime = 0, UpdateTime = 0\<rparr>"
  have name: "NewProjectFromResourceName ?h ''projects/ghost'' = Inr ?p"
    by (simp add: sample_helpers_def valid_id_def)
  have absent: "entities empty_store \<lparr>Kind = ProjectEntityName ?h, Name = ResourceName ?h ?p\<rparr> = None"
    by (simp add: empty_store_def)
  have c1: "newDataStoreClient healthy = None" by (simp add: healthy_def)
  have c2: "newDataStoreClient (healthy\<lparr>getErr := Some (Err ''deadline exceeded'')\<rparr>) = None"
    by (simp add: healthy_def)
  note a = C1_absent_key [OF c1 name absent]
  note b = C1_absent_key [OF c2 name absent]
  show ?thesis
    using a b by (simp add: healthy_def empty_store_def)
qed

text \<open>
  Claim C1 as stated fails for Delete: on a key that was never created, with a healthy
  store, DeleteProject succeeds.
\<close>

theorem C1_delete_absent_counterexample:
  "entities empty_store \<lparr>Kind = ''Project'', Name = ''projects/ghost''\<rparr> = None
   \<and> fst (DeleteProject (sample_helpers 0 (\<lambda>m. None)) healthy empty_store \<lparr>del_Name = ''projects/ghost''\<rparr>)
       = (Some Empty, None)"
  by (simp add: DeleteProject_def client_Delete_def sample_helpers_def healthy_def empty_store_def valid_id_def Let_def)

lemma CreateProject_existing:
  assumes "newDataStoreClient e = None"
    and "NewProjectFromProjectID h (cr_ProjectId request) = Inr project"
    and "getErr e = None"
    and "entities ds \<lparr>Kind = ProjectEntityName h, Name = ResourceName h project\<rparr> = Some existing"
  shows "CreateProject h e ds request =
           ((None, Some (Status AlreadyExists (ResourceName h project @ '' already exists''))), ds)"
  using assms by (simp add: CreateProject_def client_Get_def Let_def)

lemma CreateProject_written:
  assumes "newDataStoreClient e = None"
    and "NewProjectFromProjectID h (cr_ProjectId request) = Inr project"
    and "snd (fst (CreateProject h e ds request)) = None"
  shows "snd (CreateProject h e ds request) =
           ds\<lparr>entities := (entities ds)(\<lparr>Kind = ProjectEntityName h, Name = ResourceName h project\<rparr> \<mapsto>
                   (fst (Update h project (cr_Project request)))
                     \<lparr>CreateTime := UpdateTime (fst (Update h project (cr_Project request)))\<rparr>),
               attempts := attempts ds @ [PutCall \<lparr>Kind = ProjectEntityName h, Name = ResourceName h project\<rparr>
                   ((fst (Update h project (cr_Project request)))
                     \<lparr>CreateTime := UpdateTime (fst (Update h project (cr_Project request)))\<rparr>)]\<rparr>"
  using assms
  by (auto simp add: CreateProject_def client_Put_def Let_def split: sum.splits prod.splits option.splits)

text \<open>
  What CreateProject does when the read of its existence check answers. Take a request
  whose id parses and a client that opens. If the read finds a record at the key,
  CreateProject fails with already-exists and returns the store exactly as it was: no write
  was attempted and the record, with its \<open>CreateTime\<close>, is unchanged. And after a
  CreateProject that succeeded, the same request again (at any later time, with a store
  whose read answers) fails with already-exists and leaves the store as the first call
  left it.
\<close>

theorem CreateProject_read_answers:
  assumes "newDataStoreClient e = None"
    and "NewProjectFromProjectID h (cr_ProjectId request) = Inr project"
  shows "(\<forall>existing.
            getErr e = None
            \<and> entities ds \<lparr>Kind = ProjectEntityName h, Name = ResourceName h project\<rparr> = Some existing \<longrightarrow>
            CreateProject h e ds request =
              ((None, Some (Status AlreadyExists (ResourceName h project @ '' already exists''))), ds))
       \<and> (\<forall>e2 u.
            snd (fst (CreateProject h e ds request)) = None
            \<and> newDataStoreClient e2 = None \<and> getErr e2 = None \<longrightarrow>
            CreateProject (h\<lparr>Update := u\<rparr>) e2 (snd (CreateProject h e ds request)) request =
              ((None, Some (Status AlreadyExists (ResourceName h project @ '' already exists''))),
               snd (CreateProject h e ds request)))"
proof (intro conjI allI impI)
  fix existing
  assume "getErr e = None
    \<and> entities ds \<lparr>Kind = ProjectEntityName h, Name = ResourceName h project\<rparr> = Some existing"
  then show "CreateProject h e ds request =
      ((None, Some (Status AlreadyExists (ResourceName h project @ '' already exists''))), ds)"
    using assms CreateProject_existing by blast
next
  fix e2 :: env and u
  assume a: "snd (fst (CreateProject h e ds request)) = None
    \<and> newDataStoreClient e2 = None \<and> getErr e2 = None"
  let ?k = "\<lparr>Kind = ProjectEntityName h, Name = ResourceName h project\<rparr>"
  let ?ds' = "snd (CreateProject h e ds request)"
  from a assms have "\<exists>p. entities ?ds' ?k = Some p"
    by (simp add: CreateProject_written)
  then obtain p where p: "entities ?ds' ?k = Some p" ..
  have "CreateProject (h\<lparr>Update := u\<rparr>) e2 ?ds' request =
      ((None, Some (Status AlreadyExists (ResourceName (h\<lparr>Update := u\<rparr>) project @ '' already exists''))), ?ds')"
    by (rule CreateProject_existing [where existing = p]) (use a assms p in simp_all)
  then show "CreateProject (h\<lparr>Update := u\<rparr>) e2 ?ds' request =
      ((None, Some (Status AlreadyExists (ResourceName h project @ '' already exists''))), ?ds')"
    by simp
qed


text \<open>
  At a concrete input: \<open>demo\<close> is created in an empty store at time 5 and created again at
  time 9, with a store that answers; the record keeps \<open>CreateTime = 5\<close>.
\<close>

theorem CreateProject_read_answers_example:
  "newDataStoreClient healthy = None
   \<and> NewProjectFromProjectID (sample_helpers 5 (\<lambda>m. None)) ''demo''
       = Inr \<lparr>ProjectID = ''demo'', DisplayName = [], Description = [], CreateTime = 0, UpdateTime = 0\<rparr>
   \<and> snd (fst (CreateProject (sample_helpers 5 (\<lambda>m. None)) healthy empty_store
         \<lparr>cr_ProjectId = ''demo'', cr_Project = None\<rparr>)) = None
   \<and> entities (snd (CreateProject (sample_helpers 5 (\<lambda>m. None)) healthy empty_store
         \<lparr>cr_ProjectId = ''demo'', cr_Project = None\<rparr>)) \<lparr>Kind = ''Project'', Name = ''projects/demo''\<rparr>
       = Some \<lparr>ProjectID = ''demo'', DisplayName = [], Description = [], CreateTime = 5, UpdateTime = 5\<rparr>
   \<and> CreateProject ((sample_helpers 5 (\<lambda>m. None))\<lparr>Update := Project_Update 9 (\<lambda>m. None)\<rparr>) healthy
         (snd (CreateProject (sample_helpers 5 (\<lambda>m. None)) healthy empty_store
            \<lparr>cr_ProjectId = ''demo'', cr_Project = None\<rparr>))
         \<lparr>cr_ProjectId = ''demo'', cr_Project = None\<rparr>
       = ((None, Some (Status AlreadyExists ''projects/demo already exists'')),
          snd (CreateProject (sample_helpers 5 (\<lambda>m. None)) healthy empty_store
            \<lparr>cr_ProjectId = ''demo'', cr_Project = None\<rparr>))"
proof -
  let ?h = "sample_helpers 5 (\<lambda>m. None)"
  let ?r = "\<lparr>cr_ProjectId = ''demo'', cr_Project = None\<rparr>"
  let ?p = "\<lparr>ProjectID = ''demo'', DisplayName = [], Description = [], CreateTime = 0, UpdateTime = 0\<rparr>"
  have c: "newDataStoreClient healthy = None" and g: "getErr healthy = None"
    by (simp_all add: healthy_def)
  have n: "NewProjectFromProjectID ?h (cr_ProjectId ?r) = Inr ?p"
    by (simp add: sample_helpers_def valid_id_def)
  have first: "CreateProject ?h healthy empty_store ?r =
      ((Some \<lparr>pb_Name = ''projects/demo'', pb_DisplayName = [], pb_Description = [],
               pb_CreateTime = 5, pb_UpdateTime = 5\<rparr>, None),
       \<lparr>entities = [\<lparr>Kind = ''Project'', Name = ''projects/demo''\<rparr> \<mapsto>
            \<lparr>ProjectID = ''demo'', DisplayName = [], Description = [], CreateTime = 5, UpdateTime = 5\<rparr>],
        attempts = [PutCall \<lparr>Kind = ''Project'', Name = ''projects/demo''\<rparr>
            \<lparr>ProjectID = ''demo'', DisplayName = [], Description = [], CreateTime = 5, UpdateTime = 5\<rparr>]\<rparr>)"
    by (simp add: CreateProject_def client_Get_def client_Put_def Project_Update_def Let_def
        sample_helpers_def valid_id_def healthy_def empty_store_def)
  have ok: "snd (fst (CreateProject ?h healthy empty_store ?r)) = None"
    by (simp add: first)
  have rn: "ResourceName ?h ?p = ''projects/demo''"
    by (simp add: sample_helpers_def)
  from CreateProject_read_answers [OF c n, of empty_store] ok c g rn
  have "CreateProject (?h\<lparr>Update := Project_Update 9 (\<lambda>m. None)\<rparr>) healthy
          (snd (CreateProject ?h healthy empty_store ?r)) ?r
        = ((None, Some (Status AlreadyExists ''projects/demo already exists'')),
           snd (CreateProject ?h healthy empty_store ?r))"
    by simp
  with c n ok first show ?thesis by simp
qed

text \<open>
  Claim C2 on the code. The existence check of CreateProject (lines 28 to 33, under the
  comment that it fails if the project already exists) takes every error of the read for
  absence: only \<open>err == nil\<close> ends the call. Here a record is stored at \<open>projects/demo\<close>
  with \<open>CreateTime = 5\<close>, and the read fails with an error of the store. CreateProject, at
  time 9, writes over the record and returns the new project with no error, where the claim
  says already-exists, no write and the record unchanged. GetProject, on the same store
  and the same failing read, tells this error from no-such-entity and returns an internal
  condition.
\<close>

theorem C2_create_overwrites_after_failed_read:
  "entities \<lparr>entities = [\<lparr>Kind = ''Project'', Name = ''projects/demo''\<rparr> \<mapsto>
                 \<lparr>ProjectID = ''demo'', DisplayName = ''Demo'', Description = [],
                    CreateTime = 5, UpdateTime = 5\<rparr>],
             attempts = []\<rparr> \<lparr>Kind = ''Project'', Name = ''projects/demo''\<rparr>
     = Some \<lparr>ProjectID = ''demo'', DisplayName = ''Demo'', Description = [], CreateTime = 5, UpdateTime = 5\<rparr>
   \<and> CreateProject (sample_helpers 9 (\<lambda>m. None)) (healthy\<lparr>getErr := Some (Err ''deadline exceeded'')\<rparr>)
         \<lparr>entities = [\<lparr>Kind = ''Project'', Name = ''projects/demo''\<rparr> \<mapsto>
                 \<lparr>ProjectID = ''demo'', DisplayName = ''Demo'', Description = [],
                    CreateTime = 5, UpdateTime = 5\<rparr>],
          attempts = []\<rparr>
         \<lparr>cr_ProjectId = ''demo'', cr_Project = None\<rparr>
     = ((Some \<lparr>pb_Name = ''projects/demo'', pb_DisplayName = [], pb_Description = [],
               pb_CreateTime = 9, pb_UpdateTime = 9\<rparr>, None),
        \<lparr>entities = [\<lparr>Kind = ''Project'', Name = ''projects/demo''\<rparr> \<mapsto>
            \<lparr>ProjectID = ''demo'', DisplayName = [], Description = [], CreateTime = 9, UpdateTime = 9\<rparr>],
         attempts = [PutCall \<lparr>Kind = ''Project'', Name = ''projects/demo''\<rparr>
            \<lparr>ProjectID = ''demo'', DisplayName = [], Description = [], CreateTime = 9, UpdateTime = 9\<rparr>]\<rparr>)
   \<and> GetProject (sample_helpers 9 (\<lambda>m. None)) (healthy\<lparr>getErr := Some (Err ''deadline exceeded'')\<rparr>)
         \<lparr>entities = [\<lparr>Kind = ''Project'', Name = ''projects/demo''\<rparr> \<mapsto>
                 \<lparr>ProjectID = ''demo'', DisplayName = ''Demo'', Description = [],
                    CreateTime = 5, UpdateTime = 5\<rparr>],
          attempts = []\<rparr>
         \<lparr>get_Name = ''projects/demo''\<rparr>
     = (None, Some (Status Internal ''deadline exceeded''))"
  by (simp add: CreateProject_def GetProject_def client_Get_def client_Put_def Project_Update_def
      Let_def sample_helpers_def valid_id_def healthy_def)

lemma UpdateProject_written:
  assumes c: "newDataStoreClient e = None"
    and n: "NewProjectFromResourceName h (GetName (upd_Project up)) = Inr project"
    and ok: "snd (fst (UpdateProject h e ds up)) = None"
  shows "\<exists>old. entities ds \<lparr>Kind = ProjectEntityName h, Name = ResourceName h project\<rparr> = Some old
           \<and> entities (snd (UpdateProject h e ds up)) \<lparr>Kind = ProjectEntityName h, Name = ResourceName h project\<rparr>
               = Some (fst (Update h old (upd_Project up)))
           \<and> snd (Update h old (upd_Project up)) = None"
proof -
  let ?k = "\<lparr>Kind = ProjectEntityName h, Name = ResourceName h project\<rparr>"
  show ?thesis
  proof (cases "client_Get e ds ?k")
    case (Inl err)
    with c n ok show ?thesis by (simp add: UpdateProject_def Let_def)
  next
    case (Inr old)
    then have old: "entities ds ?k = Some old"
      by (simp add: client_Get_def split: option.splits)
    obtain p1 uerr where u: "Update h old (upd_Project up) = (p1, uerr)"
      by (cases "Update h old (upd_Project up)")
    show ?thesis
    proof (cases uerr)
      case (Some err)
      with c n ok Inr u show ?thesis by (simp add: UpdateProject_def Let_def)
    next
      case None
      show ?thesis
      proof (cases "putErr e")
        case (Some err)
        with c n ok Inr u None show ?thesis
          by (simp add: UpdateProject_def client_Put_def Let_def)
      next
        case pn: None
        with c n Inr u None have "entities (snd (UpdateProject h e ds up)) ?k = Some p1"
          by (simp add: UpdateProject_def client_Put_def Let_def)
        with old u None show ?thesis by simp
      qed
    qed
  qed
qed

lemma Project_Update_times:
  "snd (Project_Update now invalid p m) = None \<Longrightarrow>
     CreateTime (fst (Project_Update now invalid p m)) = CreateTime p
     \<and> UpdateTime (fst (Project_Update now invalid p m)) = now"
  by (simp add: Project_Update_def split: option.splits)


lemma UpdateProject_entities:
  "entities (snd (UpdateProject h e ds up)) = entities ds
   \<or> (\<exists>k old p1. entities ds k = Some old \<and> Update h old (upd_Project up) = (p1, None)
         \<and> entities (snd (UpdateProject h e ds up)) = (entities ds)(k \<mapsto> p1))"
proof (cases "newDataStoreClient e")
  case (Some err)
  then show ?thesis by (simp add: UpdateProject_def)
next
  case c: None
  show ?thesis
  proof (cases "NewProjectFromResourceName h (GetName (upd_Project up))")
    case (Inl err)
    with c show ?thesis by (simp add: UpdateProject_def)
  next
    case n: (Inr project)
    let ?k = "\<lparr>Kind = ProjectEntityName h, Name = ResourceName h project\<rparr>"
    show ?thesis
    proof (cases "client_Get e ds ?k")
      case (Inl err)
      with c n show ?thesis by (simp add: UpdateProject_def Let_def)
    next
      case (Inr old)
      then have old: "entities ds ?k = Some old"
        by (simp add: client_Get_def split: option.splits)
      obtain p1 uerr where u: "Update h old (upd_Project up) = (p1, uerr)"
        by (cases "Update h old (upd_Project up)")
      show ?thesis
      proof (cases uerr)
        case (Some err)
        with c n Inr u show ?thesis by (simp add: UpdateProject_def Let_def)
      next
        case None
        show ?thesis
        proof (cases "putErr e")
          case (Some err)
          with c n Inr u None show ?thesis
            by (simp add: UpdateProject_def client_Put_def Let_def)
        next
          case pn: None
          with c n Inr u None
          have "entities (snd (UpdateProject h e ds up)) = (entities ds)(?k \<mapsto> p1)"
            by (simp add: UpdateProject_def client_Put_def Let_def)
          with old u None show ?thesis by blast
        qed
      qed
    qed
  qed
qed

text \<open>
  The timestamps when the store answers, with \<open>Project_Update\<close> (modelled from the spec) as
  the Update helper and every other helper arbitrary. A CreateProject that succeeds stores a record whose \<open>CreateTime\<close>
  equals its \<open>UpdateTime\<close> (the clock's reading when the fields were valid). An
  UpdateProject that succeeds replaces the stored record by one with the same \<open>CreateTime\<close>
  and with \<open>UpdateTime\<close> set to the clock's reading, so \<open>CreateTime \<le> UpdateTime\<close> is kept
  when the clock does not run backwards. And whatever UpdateProject returns, no record of
  the store changes its \<open>CreateTime\<close>.
\<close>

theorem create_update_times:
  assumes "newDataStoreClient e = None"
  shows "(\<forall>project.
            NewProjectFromProjectID h (cr_ProjectId cr) = Inr project
            \<and> snd (fst (CreateProject (h\<lparr>Update := Project_Update now invalid\<rparr>) e ds cr)) = None \<longrightarrow>
            (\<exists>p. entities (snd (CreateProject (h\<lparr>Update := Project_Update now invalid\<rparr>) e ds cr))
                    \<lparr>Kind = ProjectEntityName h, Name = ResourceName h project\<rparr> = Some p
                 \<and> CreateTime p = UpdateTime p
                 \<and> (invalid (cr_Project cr) = None \<longrightarrow> CreateTime p = now)))
       \<and> (\<forall>project.
            NewProjectFromResourceName h (GetName (upd_Project up)) = Inr project
            \<and> snd (fst (UpdateProject (h\<lparr>Update := Project_Update now invalid\<rparr>) e ds up)) = None \<longrightarrow>
            (\<exists>old new.
                 entities ds \<lparr>Kind = ProjectEntityName h, Name = ResourceName h project\<rparr> = Some old
               \<and> entities (snd (UpdateProject (h\<lparr>Update := Project_Update now invalid\<rparr>) e ds up))
                    \<lparr>Kind = ProjectEntityName h, Name = ResourceName h project\<rparr> = Some new
               \<and> CreateTime new = CreateTime old
               \<and> UpdateTime new = now
               \<and> (CreateTime old \<le> UpdateTime old \<and> UpdateTime old \<le> now \<longrightarrow>
                    CreateTime new \<le> UpdateTime new)))
       \<and> (\<forall>k old new.
            entities ds k = Some old
            \<and> entities (snd (UpdateProject (h\<lparr>Update := Project_Update now invalid\<rparr>) e ds up)) k = Some new \<longrightarrow>
            CreateTime new = CreateTime old)"
proof (intro conjI allI impI)
  let ?h = "h\<lparr>Update := Project_Update now invalid\<rparr>"
  fix project
  assume a: "NewProjectFromProjectID h (cr_ProjectId cr) = Inr project
    \<and> snd (fst (CreateProject ?h e ds cr)) = None"
  then have n: "NewProjectFromProjectID ?h (cr_ProjectId cr) = Inr project" by simp
  let ?p = "(fst (Project_Update now invalid project (cr_Project cr)))
              \<lparr>CreateTime := UpdateTime (fst (Project_Update now invalid project (cr_Project cr)))\<rparr>"
  have w: "entities (snd (CreateProject ?h e ds cr))
      \<lparr>Kind = ProjectEntityName h, Name = ResourceName h project\<rparr> = Some ?p"
    using CreateProject_written [OF assms n] a by simp
  have v: "invalid (cr_Project cr) = None \<longrightarrow> CreateTime ?p = now"
    by (simp add: Project_Update_def)
  show "\<exists>p. entities (snd (CreateProject ?h e ds cr))
        \<lparr>Kind = ProjectEntityName h, Name = ResourceName h project\<rparr> = Some p
      \<and> CreateTime p = UpdateTime p \<and> (invalid (cr_Project cr) = None \<longrightarrow> CreateTime p = now)"
  proof (intro exI conjI)
    show "entities (snd (CreateProject ?h e ds cr))
      \<lparr>Kind = ProjectEntityName h, Name = ResourceName h project\<rparr> = Some ?p" by (rule w)
    show "CreateTime ?p = UpdateTime ?p" by simp
    show "invalid (cr_Project cr) = None \<longrightarrow> CreateTime ?p = now" by (rule v)
  qed
next
  let ?h = "h\<lparr>Update := Project_Update now invalid\<rparr>"
  fix project
  assume a: "NewProjectFromResourceName h (GetName (upd_Project up)) = Inr project
    \<and> snd (fst (UpdateProject ?h e ds up)) = None"
  then have n: "NewProjectFromResourceName ?h (GetName (upd_Project up)) = Inr project" by simp
  from UpdateProject_written [OF assms n] a
  obtain old where old: "entities ds \<lparr>Kind = ProjectEntityName h, Name = ResourceName h project\<rparr> = Some old"
    and new: "entities (snd (UpdateProject ?h e ds up)) \<lparr>Kind = ProjectEntityName h, Name = ResourceName h project\<rparr>
        = Some (fst (Project_Update now invalid old (upd_Project up)))"
    and ok: "snd (Project_Update now invalid old (upd_Project up)) = None"
    by auto
  let ?new = "fst (Project_Update now invalid old (upd_Project up))"
  from Project_Update_times [OF ok]
  have t: "CreateTime ?new = CreateTime old" "UpdateTime ?new = now" by simp_all
  show "\<exists>old new.
      entities ds \<lparr>Kind = ProjectEntityName h, Name = ResourceName h project\<rparr> = Some old
    \<and> entities (snd (UpdateProject ?h e ds up)) \<lparr>Kind = ProjectEntityName h, Name = ResourceName h project\<rparr> = Some new
    \<and> CreateTime new = CreateTime old \<and> UpdateTime new = now
    \<and> (CreateTime old \<le> UpdateTime old \<and> UpdateTime old \<le> now \<longrightarrow> CreateTime new \<le> UpdateTime new)"
  proof (intro exI conjI)
    show "entities ds \<lparr>Kind = ProjectEntityName h, Name = ResourceName h project\<rparr> = Some old" by (rule old)
    show "entities (snd (UpdateProject ?h e ds up)) \<lparr>Kind = ProjectEntityName h, Name = ResourceName h project\<rparr> = Some ?new"
      by (rule new)
    show "CreateTime ?new = CreateTime old" by (rule t(1))
    show "UpdateTime ?new = now" by (rule t(2))
    show "CreateTime old \<le> UpdateTime old \<and> UpdateTime old \<le> now \<longrightarrow> CreateTime ?new \<le> UpdateTime ?new"
      using t by simp
  qed
next
  let ?h = "h\<lparr>Update := Project_Update now invalid\<rparr>"
  fix k old new
  assume a: "entities ds k = Some old \<and> entities (snd (UpdateProject ?h e ds up)) k = Some new"
  from UpdateProject_entities [of ?h e ds up]
  show "CreateTime new = CreateTime old"
  proof
    assume "entities (snd (UpdateProject ?h e ds up)) = entities ds"
    with a show ?thesis by auto
  next
    assume "\<exists>k old p1. entities ds k = Some old \<and> Update ?h old (upd_Project up) = (p1, None)
         \<and> entities (snd (UpdateProject ?h e ds up)) = (entities ds)(k \<mapsto> p1)"
    then obtain k' old' p1 where o: "entities ds k' = Some old'"
      and u: "Project_Update now invalid old' (upd_Project up) = (p1, None)"
      and w: "entities (snd (UpdateProject ?h e ds up)) = (entities ds)(k' \<mapsto> p1)"
      by auto
    from u have ok: "snd (Project_Update now invalid old' (upd_Project up)) = None" by simp
    from Project_Update_times [OF ok] u have c: "CreateTime p1 = CreateTime old'" by simp
    show ?thesis
    proof (cases "k = k'")
      case True
      with a o w c show ?thesis by auto
    next
      case False
      with a w show ?thesis by auto
    qed
  qed
qed

text \<open>
  At a concrete input: \<open>demo\<close> is created at time 5 and updated at time 9; the stored record
  then has \<open>CreateTime = 5\<close> and \<open>UpdateTime = 9\<close>.
\<close>

theorem create_update_times_example:
  "newDataStoreClient healthy = None
   \<and> CreateProject ((sample_helpers 0 (\<lambda>m. None))\<lparr>Update := Project_Update 5 (\<lambda>m. None)\<rparr>)
         healthy empty_store \<lparr>cr_ProjectId = ''demo'', cr_Project = None\<rparr>
       = ((Some \<lparr>pb_Name = ''projects/demo'', pb_DisplayName = [], pb_Description = [],
                 pb_CreateTime = 5, pb_UpdateTime = 5\<rparr>, None),
          \<lparr>entities = [\<lparr>Kind = ''Project'', Name = ''projects/demo''\<rparr> \<mapsto>
             \<lparr>ProjectID = ''demo'', DisplayName = [], Description = [], CreateTime = 5, UpdateTime = 5\<rparr>],
           attempts = [PutCall \<lparr>Kind = ''Project'', Name = ''projects/demo''\<rparr>
             \<lparr>ProjectID = ''demo'', DisplayName = [], Description = [], CreateTime = 5, UpdateTime = 5\<rparr>]\<rparr>)
   \<and> (\<exists>p. entities (snd (CreateProject ((sample_helpers 0 (\<lambda>m. None))\<lparr>Update := Project_Update 5 (\<lambda>m. None)\<rparr>)
         healthy empty_store \<lparr>cr_ProjectId = ''demo'', cr_Project = None\<rparr>))
         \<lparr>Kind = ''Project'', Name = ''projects/demo''\<rparr> = Some p \<and> CreateTime p = UpdateTime p \<and> CreateTime p = 5)
   \<and> fst (UpdateProject ((sample_helpers 0 (\<lambda>m. None))\<lparr>Update := Project_Update 9 (\<lambda>m. None)\<rparr>) healthy
         \<lparr>entities = [\<lparr>Kind = ''Project'', Name = ''projects/demo''\<rparr> \<mapsto>
             \<lparr>ProjectID = ''demo'', DisplayName = [], Description = [], CreateTime = 5, UpdateTime = 5\<rparr>],
          attempts = []\<rparr>
         \<lparr>upd_Project = Some \<lparr>pb_Name = ''projects/demo'', pb_DisplayName = ''Demo2'', pb_Description = [],
                                pb_CreateTime = 0, pb_UpdateTime = 0\<rparr>\<rparr>)
       = (Some \<lparr>pb_Name = ''projects/demo'', pb_DisplayName = ''Demo2'', pb_Description = [],
                 pb_CreateTime = 5, pb_UpdateTime = 9\<rparr>, None)
   \<and> (\<exists>new. entities (snd (UpdateProject ((sample_helpers 0 (\<lambda>m. None))\<lparr>Update := Project_Update 9 (\<lambda>m. None)\<rparr>)
         healthy
         \<lparr>entities = [\<lparr>Kind = ''Project'', Name = ''projects/demo''\<rparr> \<mapsto>
             \<lparr>ProjectID = ''demo'', DisplayName = [], Description = [], CreateTime = 5, UpdateTime = 5\<rparr>],
          attempts = []\<rparr>
         \<lparr>upd_Project = Some \<lparr>pb_Name = ''projects/demo'', pb_DisplayName = ''Demo2'', pb_Description = [],
                                pb_CreateTime = 0, pb_UpdateTime = 0\<rparr>\<rparr>))
         \<lparr>Kind = ''Project'', Name = ''projects/demo''\<rparr> = Some new
       \<and> CreateTime new = 5 \<and> UpdateTime new = 9)"
proof -
  let ?h = "sample_helpers 0 (\<lambda>m. None)"
  let ?r = "\<lparr>cr_ProjectId = ''demo'', cr_Project = None\<rparr>"
  let ?p = "\<lparr>ProjectID = ''demo'', DisplayName = [], Description = [], CreateTime = 0, UpdateTime = 0\<rparr>"
  let ?p5 = "\<lparr>ProjectID = ''demo'', DisplayName = [], Description = [], CreateTime = 5, UpdateTime = 5\<rparr>"
  let ?k = "\<lparr>Kind = ''Project'', Name = ''projects/demo''\<rparr>"
  let ?ds = "\<lparr>entities = [?k \<mapsto> ?p5], attempts = []\<rparr>"
  let ?up = "\<lparr>upd_Project = Some \<lparr>pb_Name = ''projects/demo'', pb_DisplayName = ''Demo2'', pb_Description = [],
                                pb_CreateTime = 0, pb_UpdateTime = 0\<rparr>\<rparr>"
  have c: "newDataStoreClient healthy = None" by (simp add: healthy_def)
  have n: "NewProjectFromProjectID ?h (cr_ProjectId ?r) = Inr ?p"
    by (simp add: sample_helpers_def valid_id_def)
  have n': "NewProjectFromResourceName ?h (GetName (upd_Project ?up)) = Inr ?p"
    by (simp add: sample_helpers_def valid_id_def)
  have first: "CreateProject (?h\<lparr>Update := Project_Update 5 (\<lambda>m. None)\<rparr>) healthy empty_store ?r =
      ((Some \<lparr>pb_Name = ''projects/demo'', pb_DisplayName = [], pb_Description = [],
               pb_CreateTime = 5, pb_UpdateTime = 5\<rparr>, None),
       \<lparr>entities = [?k \<mapsto> ?p5], attempts = [PutCall ?k ?p5]\<rparr>)"
    by (simp add: CreateProject_def client_Get_def client_Put_def Project_Update_def Let_def
        sample_helpers_def valid_id_def healthy_def empty_store_def)
  have second: "fst (UpdateProject (?h\<lparr>Update := Project_Update 9 (\<lambda>m. None)\<rparr>) healthy ?ds ?up) =
      (Some \<lparr>pb_Name = ''projects/demo'', pb_DisplayName = ''Demo2'', pb_Description = [],
               pb_CreateTime = 5, pb_UpdateTime = 9\<rparr>, None)"
    by (simp add: UpdateProject_def client_Get_def client_Put_def Project_Update_def Let_def
        sample_helpers_def valid_id_def healthy_def)
  have rn: "ResourceName ?h ?p = ''projects/demo''" "ProjectEntityName ?h = ''Project''"
    by (simp_all add: sample_helpers_def)
  from create_update_times [OF c, of ?h ?r 5 "\<lambda>m. None" empty_store] n first rn
  have a: "\<exists>p. entities (snd (CreateProject (?h\<lparr>Update := Project_Update 5 (\<lambda>m. None)\<rparr>) healthy empty_store ?r))
         ?k = Some p \<and> CreateTime p = UpdateTime p \<and> CreateTime p = 5"
    by simp
  from conjunct1 [OF conjunct2 [OF create_update_times [OF c, of ?h ?r 9 "\<lambda>m. None" ?ds ?up]],
        THEN spec, of ?p] n' second rn
  have b: "\<exists>new. entities (snd (UpdateProject (?h\<lparr>Update := Project_Update 9 (\<lambda>m. None)\<rparr>) healthy ?ds ?up)) ?k
         = Some new \<and> CreateTime new = 5 \<and> UpdateTime new = 9"
    by auto
  from c first second a b show ?thesis by blast
qed

text \<open>
  Claim C3 on the code. A later operation does change \<open>CreateTime\<close>: CreateProject builds the
  record from the request alone and sets \<open>CreateTime\<close> to the new \<open>UpdateTime\<close> (line 35), and
  its existence check lets the write through whenever the read returns an error (line 31).
  Here the record of \<open>projects/demo\<close> was created at time 5; a CreateProject at time 9,
  whose read fails with an error of the store, leaves it with \<open>CreateTime = 9\<close>.
\<close>

theorem C3_create_time_rewritten:
  "entities \<lparr>entities = [\<lparr>Kind = ''Project'', Name = ''projects/demo''\<rparr> \<mapsto>
                 \<lparr>ProjectID = ''demo'', DisplayName = ''Demo'', Description = [],
                    CreateTime = 5, UpdateTime = 7\<rparr>],
             attempts = []\<rparr> \<lparr>Kind = ''Project'', Name = ''projects/demo''\<rparr>
     = Some \<lparr>ProjectID = ''demo'', DisplayName = ''Demo'', Description = [], CreateTime = 5, UpdateTime = 7\<rparr>
   \<and> snd (fst (CreateProject (sample_helpers 9 (\<lambda>m. None))
         (healthy\<lparr>getErr := Some (Err ''unavailable'')\<rparr>)
         \<lparr>entities = [\<lparr>Kind = ''Project'', Name = ''projects/demo''\<rparr> \<mapsto>
                 \<lparr>ProjectID = ''demo'', DisplayName = ''Demo'', Description = [],
                    CreateTime = 5, UpdateTime = 7\<rparr>],
          attempts = []\<rparr>
         \<lparr>cr_ProjectId = ''demo'',
          cr_Project = Some \<lparr>pb_Name = [], pb_DisplayName = ''Demo'', pb_Description = [],
                               pb_CreateTime = 0, pb_UpdateTime = 0\<rparr>\<rparr>)) = None
   \<and> entities (snd (CreateProject (sample_helpers 9 (\<lambda>m. None))
         (healthy\<lparr>getErr := Some (Err ''unavailable'')\<rparr>)
         \<lparr>entities = [\<lparr>Kind = ''Project'', Name = ''projects/demo''\<rparr> \<mapsto>
                 \<lparr>ProjectID = ''demo'', DisplayName = ''Demo'', Description = [],
                    CreateTime = 5, UpdateTime = 7\<rparr>],
          attempts = []\<rparr>
         \<lparr>cr_ProjectId = ''demo'',
          cr_Project = Some \<lparr>pb_Name = [], pb_DisplayName = ''Demo'', pb_Description = [],
                               pb_CreateTime = 0, pb_UpdateTime = 0\<rparr>\<rparr>))
       \<lparr>Kind = ''Project'', Name = ''projects/demo''\<rparr>
     = Some \<lparr>ProjectID = ''demo'', DisplayName = ''Demo'', Description = [], CreateTime = 9, UpdateTime = 9\<rparr>"
  by (simp add: CreateProject_def client_Get_def client_Put_def Project_Update_def
      Let_def sample_helpers_def valid_id_def healthy_def)

text \<open>
  Claim C7 on the code. CreateProject assigns the error of \<open>project.Update\<close> to \<open>err\<close> and
  overwrites it with the result of \<open>client.Put\<close> (lines 34 to 36) without reading it. Here
  Update rejects the request's fields, and CreateProject still writes the record and
  returns it with no error.
\<close>

theorem C7_create_ignores_update_error:
  "Update (sample_helpers 5 (\<lambda>m. Some (Err ''invalid display name'')))
       \<lparr>ProjectID = ''demo'', DisplayName = [], Description = [], CreateTime = 0, UpdateTime = 0\<rparr>
       (Some \<lparr>pb_Name = [], pb_DisplayName = ''bad'', pb_Description = [], pb_CreateTime = 0, pb_UpdateTime = 0\<rparr>)
     = (\<lparr>ProjectID = ''demo'', DisplayName = [], Description = [], CreateTime = 0, UpdateTime = 0\<rparr>,
        Some (Err ''invalid display name''))
   \<and> CreateProject (sample_helpers 5 (\<lambda>m. Some (Err ''invalid display name''))) healthy empty_store
         \<lparr>cr_ProjectId = ''demo'',
          cr_Project = Some \<lparr>pb_Name = [], pb_DisplayName = ''bad'', pb_Description = [],
                               pb_CreateTime = 0, pb_UpdateTime = 0\<rparr>\<rparr>
     = ((Some \<lparr>pb_Name = ''projects/demo'', pb_DisplayName = [], pb_Description = [],
               pb_CreateTime = 0, pb_UpdateTime = 0\<rparr>, None),
        \<lparr>entities = [\<lparr>Kind = ''Project'', Name = ''projects/demo''\<rparr> \<mapsto>
            \<lparr>ProjectID = ''demo'', DisplayName = [], Description = [], CreateTime = 0, UpdateTime = 0\<rparr>],
         attempts = [PutCall \<lparr>Kind = ''Project'', Name = ''projects/demo''\<rparr>
            \<lparr>ProjectID = ''demo'', DisplayName = [], Description = [], CreateTime = 0, UpdateTime = 0\<rparr>]\<rparr>)"
  by (simp add: CreateProject_def client_Get_def client_Put_def Project_Update_def Let_def
      sample_helpers_def valid_id_def healthy_def empty_store_def)


section \<open>Properties of ListProjects\<close>

text \<open>
  Claim C4, as the code has it. When the client opens and \<open>queryApplyCursor\<close> fails on the
  request's page token, ListProjects returns that error wrapped by \<open>internalError\<close>: an
  internal condition, not an invalid-argument one. It returns before the scan is opened,
  so a bad token never restarts the scan from the beginning.
\<close>

theorem C4_bad_page_token:
  assumes "newDataStoreClient e = None"
    and "queryApplyCursor h (NewQuery (ProjectEntityName h)) (ls_PageToken req) = Inl err"
  shows "ListProjects h e req = Returns (None, Some (Status Internal (Error err)))"
  using assms by (simp add: ListProjects_def)

text \<open>
  C4 at a concrete input: the token \<open>12x\<close> is not a cursor of the sample helpers.
\<close>

theorem C4_bad_page_token_witness:
  "newDataStoreClient healthy = None
   \<and> queryApplyCursor (sample_helpers 0 (\<lambda>m. None)) (NewQuery ''Project'') ''12x'' = Inl (Err ''invalid cursor'')
   \<and> ListProjects (sample_helpers 0 (\<lambda>m. None)) healthy
         \<lparr>ls_PageSize = 10, ls_PageToken = ''12x'', ls_Filter = []\<rparr>
       = Returns (None, Some (Status Internal ''invalid cursor''))"
proof -
  let ?h = "sample_helpers 0 (\<lambda>m. None)"
  let ?req = "\<lparr>ls_PageSize = 10, ls_PageToken = ''12x'', ls_Filter = []\<rparr>"
  have c: "newDataStoreClient healthy = None" by (simp add: healthy_def)
  have q: "queryApplyCursor ?h (NewQuery (ProjectEntityName ?h)) (ls_PageToken ?req) = Inl (Err ''invalid cursor'')"
    by (simp add: sample_helpers_def)
  have q': "queryApplyCursor ?h (NewQuery ''Project'') ''12x'' = Inl (Err ''invalid cursor'')"
    by (simp add: sample_helpers_def)
  from C4_bad_page_token [OF c q] c q' show ?thesis by simp
qed

text \<open>
  Claim C4 as stated fails: for a page token that does not decode, the call returns an
  internal condition, where the claim says invalid-argument and never internal.
\<close>

theorem C4_bad_page_token_counterexample:
  "queryApplyCursor (sample_helpers 0 (\<lambda>m. None)) (NewQuery ''Project'') ''not-a-cursor''
       = Inl (Err ''invalid cursor'')
   \<and> ListProjects (sample_helpers 0 (\<lambda>m. None)) healthy
         \<lparr>ls_PageSize = 10, ls_PageToken = ''not-a-cursor'', ls_Filter = []\<rparr>
       = Returns (None, Some (Status Internal ''invalid cursor''))"
  by (simp add: ListProjects_def sample_helpers_def healthy_def)

text \<open>
  Claim C5, as the code has it. When the client opens, the page token decodes and
  \<open>createFilterOperator\<close> fails on the request's filter (as it does for a reference to a
  field outside the declared schema), ListProjects returns that error wrapped by
  \<open>internalError\<close>: an internal condition, not an invalid-argument one. The result does
  not depend on what the scan would yield: the call returns before \<open>client.Run\<close>, so no
  record is read or evaluated.
\<close>

theorem C5_undeclared_field:
  assumes "newDataStoreClient e = None"
    and "queryApplyCursor h (NewQuery (ProjectEntityName h)) (ls_PageToken req) = Inr q"
    and "createFilterOperator h (ls_Filter req) project_filter_args = Inl err"
  shows "ListProjects h e req = Returns (None, Some (Status Internal (Error err)))"
  using assms by (simp add: ListProjects_def project_filter_args_def)

text \<open>
  C5 at a concrete input: the filter \<open>owner == me\<close> names a field that is not declared; the
  scan of this environment would fail, and is never reached.
\<close>

theorem C5_undeclared_field_witness:
  "newDataStoreClient (healthy\<lparr>run := (\<lambda>q. [Inl (Err ''unavailable'')])\<rparr>) = None
   \<and> createFilterOperator (sample_helpers 0 (\<lambda>m. None)) ''owner == me'' project_filter_args
       = Inl (Err ''undeclared reference to owner'')
   \<and> ListProjects (sample_helpers 0 (\<lambda>m. None)) (healthy\<lparr>run := (\<lambda>q. [Inl (Err ''unavailable'')])\<rparr>)
         \<lparr>ls_PageSize = 10, ls_PageToken = [], ls_Filter = ''owner == me''\<rparr>
       = Returns (None, Some (Status Internal ''undeclared reference to owner''))"
proof -
  let ?h = "sample_helpers 0 (\<lambda>m. None)"
  let ?e = "healthy\<lparr>run := (\<lambda>q. [Inl (Err ''unavailable'')])\<rparr>"
  let ?req = "\<lparr>ls_PageSize = 10, ls_PageToken = [], ls_Filter = ''owner == me''\<rparr>"
  have c: "newDataStoreClient ?e = None" by (simp add: healthy_def)
  have q: "queryApplyCursor ?h (NewQuery (ProjectEntityName ?h)) (ls_PageToken ?req)
      = Inr (NewQuery (ProjectEntityName ?h))"
    by (simp add: sample_helpers_def)
  have f: "createFilterOperator ?h (ls_Filter ?req) project_filter_args
      = Inl (Err ''undeclared reference to owner'')"
    by (simp add: sample_helpers_def sample_compile_def project_filter_args_def Let_def)
  from C5_undeclared_field [OF c q f] c f show ?thesis by simp
qed

text \<open>
  Claim C5 as stated fails: for a filter on an undeclared field the call returns an
  internal condition, where the claim says invalid-argument and not internal.
\<close>

theorem C5_undeclared_field_counterexample:
  "createFilterOperator (sample_helpers 0 (\<lambda>m. None)) ''secret == x'' project_filter_args
       = Inl (Err ''undeclared reference to secret'')
   \<and> ListProjects (sample_helpers 0 (\<lambda>m. None)) healthy
         \<lparr>ls_PageSize = 10, ls_PageToken = [], ls_Filter = ''secret == x''\<rparr>
       = Returns (None, Some (Status Internal ''undeclared reference to secret''))"
  by (simp add: ListProjects_def sample_helpers_def sample_compile_def project_filter_args_def
      healthy_def Let_def)

text \<open>
  Claim C6 on the code. The schema ListProjects declares has \<open>availability\<close> (line 95), so
  a filter on it compiles; but the loop evaluates the program with \<open>project_id\<close> alone
  bound (lines 106 to 108), whatever the record holds. So for every compiled program that
  cannot be evaluated while \<open>availability\<close> is unbound, and every scan whose first result is
  a record, the call ends at that record with the evaluation error as an invalid-argument
  condition: the field is never evaluated on a record's value.
\<close>

theorem C6_declared_field_unbound:
  assumes "newDataStoreClient e = None"
    and "queryApplyCursor h (NewQuery (ProjectEntityName h)) (ls_PageToken req) = Inr q"
    and "createFilterOperator h (ls_Filter req) project_filter_args = Inr (Some prg)"
    and "run e (Distinct q) = Inr project # rest"
    and "\<forall>vars. vars ''availability'' = None \<longrightarrow> prg vars = Inl err"
  shows "(''availability'', filterArgTypeString) \<in> set project_filter_args
       \<and> filter_step (Some prg) project = Fault err
       \<and> ListProjects h e req = Returns (None, Some (Status InvalidArgument (Error err)))"
proof -
  have "[''project_id'' \<mapsto> ProjectID project] ''availability'' = None" by simp
  with assms(5) have "prg [''project_id'' \<mapsto> ProjectID project] = Inl err" by blast
  then have f: "filter_step (Some prg) project = Fault err"
    by (simp add: filter_step_def)
  then have "ListProjects h e req = Returns (None, Some (Status InvalidArgument (Error err)))"
    using assms(1-4) by (simp add: ListProjects_def project_filter_args_def)
  with f show ?thesis by (simp add: project_filter_args_def)
qed

text \<open>
  C6 at a concrete input, with the sample helpers: the filter \<open>availability == "GENERAL"\<close>
  compiles and ends the call at the first record, which has no binding for the field; on
  the same scan the filter \<open>project_id == "demo"\<close> returns the record.
\<close>

theorem C6_declared_field_unbound_witness:
  "newDataStoreClient (healthy\<lparr>run := (\<lambda>q. [Inr \<lparr>ProjectID = ''demo'', DisplayName = ''Demo'',
        Description = [], CreateTime = 5, UpdateTime = 5\<rparr>])\<rparr>) = None
   \<and> (\<exists>prg. createFilterOperator (sample_helpers 0 (\<lambda>m. None)) (''availability == '' @ quoted ''GENERAL'')
           project_filter_args = Inr (Some prg))
   \<and> ListProjects (sample_helpers 0 (\<lambda>m. None))
         (healthy\<lparr>run := (\<lambda>q. [Inr \<lparr>ProjectID = ''demo'', DisplayName = ''Demo'', Description = [],
                                          CreateTime = 5, UpdateTime = 5\<rparr>])\<rparr>)
         \<lparr>ls_PageSize = 10, ls_PageToken = [], ls_Filter = ''availability == '' @ quoted ''GENERAL''\<rparr>
       = Returns (None, Some (Status InvalidArgument ''no such attribute: availability''))
   \<and> ListProjects (sample_helpers 0 (\<lambda>m. None))
         (healthy\<lparr>run := (\<lambda>q. [Inr \<lparr>ProjectID = ''demo'', DisplayName = ''Demo'', Description = [],
                                          CreateTime = 5, UpdateTime = 5\<rparr>])\<rparr>)
         \<lparr>ls_PageSize = 10, ls_PageToken = [], ls_Filter = ''project_id == '' @ quoted ''demo''\<rparr>
       = Returns (Some \<lparr>Projects = [Some \<lparr>pb_Name = ''projects/demo'', pb_DisplayName = ''Demo'',
                                               pb_Description = [], pb_CreateTime = 5, pb_UpdateTime = 5\<rparr>],
                         NextPageToken = []\<rparr>, None)"
proof -
  let ?h = "sample_helpers 0 (\<lambda>m. None)"
  let ?demo = "\<lparr>ProjectID = ''demo'', DisplayName = ''Demo'', Description = [], CreateTime = 5, UpdateTime = 5\<rparr>"
  let ?e = "healthy\<lparr>run := (\<lambda>q. [Inr ?demo])\<rparr>"
  let ?req = "\<lparr>ls_PageSize = 10, ls_PageToken = [], ls_Filter = ''availability == '' @ quoted ''GENERAL''\<rparr>"
  let ?q = "NewQuery (ProjectEntityName ?h)"
  let ?prg = "\<lambda>vars :: string \<rightharpoonup> string. case vars ''availability'' of
                 None \<Rightarrow> Inl (Err (''no such attribute: '' @ ''availability''))
               | Some v \<Rightarrow> Inr (BoolVal (v = ''GENERAL''))"
  have c: "newDataStoreClient ?e = None" by (simp add: healthy_def)
  have q: "queryApplyCursor ?h ?q (ls_PageToken ?req) = Inr ?q"
    by (simp add: sample_helpers_def)
  have f: "createFilterOperator ?h (ls_Filter ?req) project_filter_args = Inr (Some ?prg)"
    by (simp add: sample_helpers_def sample_compile_def string_literal_def quoted_def
        project_filter_args_def Let_def)
  have scan: "run ?e (Distinct ?q) = Inr ?demo # []" by (simp add: healthy_def)
  have needs: "\<forall>vars. vars ''availability'' = None \<longrightarrow> ?prg vars = Inl (Err ''no such attribute: availability'')"
    by simp
  from C6_declared_field_unbound [OF c q f scan needs]
  have bug: "ListProjects ?h ?e ?req = Returns (None, Some (Status InvalidArgument ''no such attribute: availability''))"
    by simp
  from f have ex: "\<exists>prg. createFilterOperator ?h (''availability == '' @ quoted ''GENERAL'')
      project_filter_args = Inr (Some prg)"
    by auto
  have ok: "ListProjects ?h ?e \<lparr>ls_PageSize = 10, ls_PageToken = [], ls_Filter = ''project_id == '' @ quoted ''demo''\<rparr>
      = Returns (Some \<lparr>Projects = [Some \<lparr>pb_Name = ''projects/demo'', pb_DisplayName = ''Demo'',
                                             pb_Description = [], pb_CreateTime = 5, pb_UpdateTime = 5\<rparr>],
                       NextPageToken = []\<rparr>, None)"
    by (simp add: ListProjects_def filter_step_def sample_helpers_def sample_compile_def
        string_literal_def quoted_def project_filter_args_def healthy_def Let_def)
  from c ex bug ok show ?thesis by blast
qed

lemma filter_step_decided:
  "decides prg project \<Longrightarrow> filter_step prg project = (if passes prg project then Keep else Skip)"
  by (cases prg) (auto simp add: decides_def passes_def filter_step_def)

lemma list_loop_bound:
  "0 < n \<Longrightarrow> int (length acc) < n \<Longrightarrow> list_loop h prg n it acc = LoopEnd ms err it'
     \<Longrightarrow> int (length ms) \<le> n"
proof (induction it arbitrary: acc)
  case Nil
  then show ?case by auto
next
  case (Cons x it)
  show ?case
  proof (cases x)
    case (Inl e)
    with Cons.prems show ?thesis by auto
  next
    case (Inr project)
    show ?thesis
    proof (cases "filter_step prg project")
      case Keep
      show ?thesis
      proof (cases "int (length acc) + 1 = n")
        case True
        with Cons.prems Inr Keep show ?thesis by (auto simp add: Let_def)
      next
        case False
        with Cons.prems Inr Keep
        have "list_loop h prg n it (acc @ [fst (Message h project)]) = LoopEnd ms err it'"
          by (simp add: Let_def)
        moreover from False Cons.prems have "int (length (acc @ [fst (Message h project)])) < n"
          by simp
        ultimately show ?thesis using Cons.IH Cons.prems(1) by blast
      qed
    next
      case Skip
      with Cons Inr show ?thesis by simp
    next
      case (Fault e)
      with Cons.prems Inr show ?thesis by simp
    next
      case NotBool
      with Cons.prems Inr show ?thesis by simp
    qed
  qed
qed

lemma list_loop_few:
  "\<forall>p \<in> set ps. decides prg p \<Longrightarrow>
   int (length acc) + int (length (filter (passes prg) ps)) < n \<Longrightarrow>
   list_loop h prg n (map Inr ps @ tl') acc
     = list_loop h prg n tl' (acc @ map (\<lambda>p. fst (Message h p)) (filter (passes prg) ps))"
proof (induction ps arbitrary: acc)
  case Nil
  then show ?case by simp
next
  case (Cons p ps)
  from Cons.prems(1) have dp: "decides prg p" and rest: "\<forall>p \<in> set ps. decides prg p"
    by simp_all
  note fs = filter_step_decided [OF dp]
  then have d: "filter_step prg p = Keep \<or> filter_step prg p = Skip" by simp
  from d show ?case
  proof
    assume k: "filter_step prg p = Keep"
    with fs have pp: "passes prg p" by (simp split: if_splits)
    with Cons.prems(2) have lt: "int (length (acc @ [fst (Message h p)]))
        + int (length (filter (passes prg) ps)) < n"
      by simp
    then have ne: "int (length acc) + 1 \<noteq> n" by simp
    from Cons.IH [OF rest lt] k pp ne show ?thesis by (simp add: Let_def)
  next
    assume k: "filter_step prg p = Skip"
    with fs have pp: "\<not> passes prg p" by (simp split: if_splits)
    with Cons.prems(2) have lt: "int (length acc) + int (length (filter (passes prg) ps)) < n"
      by simp
    from Cons.IH [OF rest lt] k pp show ?thesis by simp
  qed
qed

lemma list_loop_full:
  "\<forall>p \<in> set ps. decides prg p \<Longrightarrow>
   int (length acc) < n \<Longrightarrow>
   n \<le> int (length acc) + int (length (filter (passes prg) ps)) \<Longrightarrow>
   \<exists>it'. list_loop h prg n (map Inr ps @ tl') acc
     = LoopEnd (acc @ map (\<lambda>p. fst (Message h p)) (take (nat n - length acc) (filter (passes prg) ps)))
         None it'"
proof (induction ps arbitrary: acc)
  case Nil
  then show ?case by simp
next
  case (Cons p ps)
  from Cons.prems(1) have dp: "decides prg p" and rest: "\<forall>p \<in> set ps. decides prg p"
    by simp_all
  note fs = filter_step_decided [OF dp]
  then have d: "filter_step prg p = Keep \<or> filter_step prg p = Skip" by simp
  from d show ?case
  proof
    assume k: "filter_step prg p = Keep"
    with fs have pp: "passes prg p" by (simp split: if_splits)
    show ?thesis
    proof (cases "int (length acc) + 1 = n")
      case True
      then have "nat n - length acc = Suc 0" by linarith
      with True k pp show ?thesis by (simp add: Let_def)
    next
      case False
      with Cons.prems(2) have lt: "int (length (acc @ [fst (Message h p)])) < n" by simp
      from Cons.prems(3) pp
      have ge: "n \<le> int (length (acc @ [fst (Message h p)])) + int (length (filter (passes prg) ps))"
        by simp
      from Cons.prems(2) have "nat n - length acc = Suc (nat n - length (acc @ [fst (Message h p)]))"
        using False by (simp; linarith)
      with Cons.IH [OF rest lt ge] k pp False show ?thesis by (simp add: Let_def)
    qed
  next
    assume k: "filter_step prg p = Skip"
    with fs have pp: "\<not> passes prg p" by (simp split: if_splits)
    with Cons.prems(3) have ge: "n \<le> int (length acc) + int (length (filter (passes prg) ps))"
      by simp
    from Cons.IH [OF rest Cons.prems(2) ge] k pp show ?thesis by simp
  qed
qed


lemma ListProjects_loop:
  assumes "newDataStoreClient e = None"
    and "queryApplyCursor h (NewQuery (ProjectEntityName h)) (ls_PageToken req) = Inr q"
    and "createFilterOperator h (ls_Filter req) project_filter_args = Inr prg"
    and "list_loop h prg (boundPageSize h (ls_PageSize req)) (run e (Distinct q)) [] = LoopEnd ms err it'"
  shows "ListProjects h e req =
     (if err \<noteq> None \<and> err \<noteq> Some Done then Returns (None, internalError err)
      else (case iteratorGetCursor h it' (int (length ms)) of
              Inl err \<Rightarrow> Returns (None, internalError (Some err))
            | Inr token \<Rightarrow> Returns (Some \<lparr>Projects = ms, NextPageToken = token\<rparr>, None)))"
  using assms by (simp add: ListProjects_def project_filter_args_def)

text \<open>
  Claim C8. Take a client that opens, a page token that decodes, a filter that compiles,
  and a page size that \<open>boundPageSize\<close> makes positive. Every response ListProjects returns
  has at most that many projects. When the scan yields the records \<open>ps\<close> and the filter
  decides each of them, the page is the messages of the first \<open>boundPageSize\<close> records
  that pass the filter, in scan order (all of them when fewer pass), and the call fails
  only if the cursor cannot be read. When the scan yields an error other than
  \<open>iterator.Done\<close> before the page is full, the call returns an internal condition.
\<close>

theorem C8_page_bounded:
  assumes c: "newDataStoreClient e = None"
    and q: "queryApplyCursor h (NewQuery (ProjectEntityName h)) (ls_PageToken req) = Inr q"
    and f: "createFilterOperator h (ls_Filter req) project_filter_args = Inr prg"
    and n: "0 < boundPageSize h (ls_PageSize req)"
  shows "(\<forall>resp. ListProjects h e req = Returns (Some resp, None) \<longrightarrow>
            int (length (Projects resp)) \<le> boundPageSize h (ls_PageSize req))
       \<and> (\<forall>ps. run e (Distinct q) = map Inr ps \<and> (\<forall>p \<in> set ps. decides prg p) \<longrightarrow>
            (\<exists>it'. ListProjects h e req =
               (case iteratorGetCursor h it'
                       (int (length (take (nat (boundPageSize h (ls_PageSize req))) (filter (passes prg) ps)))) of
                  Inl err \<Rightarrow> Returns (None, Some (Status Internal (Error err)))
                | Inr token \<Rightarrow>
                    Returns (Some \<lparr>Projects = map (\<lambda>p. fst (Message h p))
                                       (take (nat (boundPageSize h (ls_PageSize req))) (filter (passes prg) ps)),
                                    NextPageToken = token\<rparr>, None))))
       \<and> (\<forall>ps err rest.
            run e (Distinct q) = map Inr ps @ Inl err # rest \<and> (\<forall>p \<in> set ps. decides prg p)
            \<and> int (length (filter (passes prg) ps)) < boundPageSize h (ls_PageSize req)
            \<and> err \<noteq> Done \<longrightarrow>
            ListProjects h e req = Returns (None, Some (Status Internal (Error err))))"
proof (intro conjI allI impI)
  let ?n = "boundPageSize h (ls_PageSize req)"
  fix resp
  assume r: "ListProjects h e req = Returns (Some resp, None)"
  show "int (length (Projects resp)) \<le> ?n"
  proof (cases "list_loop h prg ?n (run e (Distinct q)) []")
    case (LoopEnd ms err it')
    from ListProjects_loop [OF c q f LoopEnd] r have "Projects resp = ms"
      by (auto split: if_splits sum.splits)
    moreover from n have "int (length ([] :: rpc_Project option list)) < ?n" by simp
    from list_loop_bound [OF n this LoopEnd] have "int (length ms) \<le> ?n" .
    ultimately show ?thesis by simp
  next
    case (LoopReturn err)
    with c q f r show ?thesis by (simp add: ListProjects_def project_filter_args_def)
  next
    case LoopPanic
    with c q f r show ?thesis by (simp add: ListProjects_def project_filter_args_def)
  qed
next
  let ?n = "boundPageSize h (ls_PageSize req)"
  fix ps
  assume a: "run e (Distinct q) = map Inr ps \<and> (\<forall>p \<in> set ps. decides prg p)"
  then have scan: "run e (Distinct q) = map Inr ps @ []" and dec: "\<forall>p \<in> set ps. decides prg p"
    by simp_all
  let ?page = "map (\<lambda>p. fst (Message h p)) (take (nat ?n) (filter (passes prg) ps))"
  have "\<exists>err it'. list_loop h prg ?n (run e (Distinct q)) [] = LoopEnd ?page err it'
          \<and> (err = None \<or> err = Some Done)"
  proof (cases "int (length (filter (passes prg) ps)) < ?n")
    case True
    then have lt: "int (length ([] :: rpc_Project option list)) + int (length (filter (passes prg) ps)) < ?n"
      by simp
    from True have "take (nat ?n) (filter (passes prg) ps) = filter (passes prg) ps" by simp
    with list_loop_few [OF dec lt, of h "[]"] scan show ?thesis by simp
  next
    case False
    then have ge: "?n \<le> int (length ([] :: rpc_Project option list)) + int (length (filter (passes prg) ps))"
      by simp
    from n have lt: "int (length ([] :: rpc_Project option list)) < ?n" by simp
    from list_loop_full [OF dec lt ge, of h "[]"] scan show ?thesis by auto
  qed
  then obtain err it' where l: "list_loop h prg ?n (run e (Distinct q)) [] = LoopEnd ?page err it'"
    and d: "err = None \<or> err = Some Done"
    by blast
  from ListProjects_loop [OF c q f l] d
  have "ListProjects h e req =
      (case iteratorGetCursor h it' (int (length ?page)) of
         Inl err \<Rightarrow> Returns (None, Some (Status Internal (Error err)))
       | Inr token \<Rightarrow> Returns (Some \<lparr>Projects = ?page, NextPageToken = token\<rparr>, None))"
    by (auto split: sum.splits)
  then have "ListProjects h e req =
      (case iteratorGetCursor h it' (int (length (take (nat ?n) (filter (passes prg) ps)))) of
         Inl err \<Rightarrow> Returns (None, Some (Status Internal (Error err)))
       | Inr token \<Rightarrow> Returns (Some \<lparr>Projects = ?page, NextPageToken = token\<rparr>, None))"
    by simp
  then show "\<exists>it'. ListProjects h e req =
      (case iteratorGetCursor h it' (int (length (take (nat ?n) (filter (passes prg) ps)))) of
         Inl err \<Rightarrow> Returns (None, Some (Status Internal (Error err)))
       | Inr token \<Rightarrow> Returns (Some \<lparr>Projects = ?page, NextPageToken = token\<rparr>, None))"
    by (rule exI)
next
  let ?n = "boundPageSize h (ls_PageSize req)"
  fix ps err rest
  assume a: "run e (Distinct q) = map Inr ps @ Inl err # rest \<and> (\<forall>p \<in> set ps. decides prg p)
    \<and> int (length (filter (passes prg) ps)) < ?n \<and> err \<noteq> Done"
  then have scan: "run e (Distinct q) = map Inr ps @ Inl err # rest"
    and dec: "\<forall>p \<in> set ps. decides prg p"
    and lt: "int (length ([] :: rpc_Project option list)) + int (length (filter (passes prg) ps)) < ?n"
    and ne: "err \<noteq> Done"
    by simp_all
  from list_loop_few [OF dec lt, of h "Inl err # rest"] scan
  have l: "list_loop h prg ?n (run e (Distinct q)) []
      = LoopEnd (map (\<lambda>p. fst (Message h p)) (filter (passes prg) ps)) (Some err) rest"
    by simp
  from ListProjects_loop [OF c q f l] ne
  show "ListProjects h e req = Returns (None, Some (Status Internal (Error err)))"
    by simp
qed


text \<open>
  C8 at concrete inputs, on a scan of the records \<open>a\<close>, \<open>b\<close>, \<open>c\<close>: with the filter
  \<open>project_id == "b"\<close> and page size 2 the page is \<open>b\<close> alone (the filter excludes \<open>a\<close> and
  \<open>c\<close>); with no filter and page size 2 it is \<open>a\<close>, \<open>b\<close> and a continuation token; a scan
  that fails after one record returns an internal condition.
\<close>

theorem C8_page_bounded_witness:
  "newDataStoreClient healthy = None
   \<and> 0 < boundPageSize (sample_helpers 0 (\<lambda>m. None)) 2
   \<and> ListProjects (sample_helpers 0 (\<lambda>m. None))
         (healthy\<lparr>run := (\<lambda>q.
            [Inr \<lparr>ProjectID = ''a'', DisplayName = [], Description = [], CreateTime = 1, UpdateTime = 1\<rparr>,
             Inr \<lparr>ProjectID = ''b'', DisplayName = [], Description = [], CreateTime = 2, UpdateTime = 2\<rparr>,
             Inr \<lparr>ProjectID = ''c'', DisplayName = [], Description = [], CreateTime = 3, UpdateTime = 3\<rparr>])\<rparr>)
         \<lparr>ls_PageSize = 2, ls_PageToken = [], ls_Filter = ''project_id == '' @ quoted ''b''\<rparr>
       = Returns (Some \<lparr>Projects =
                          [Some \<lparr>pb_Name = ''projects/b'', pb_DisplayName = [], pb_Description = [],
                                 pb_CreateTime = 2, pb_UpdateTime = 2\<rparr>],
                         NextPageToken = []\<rparr>, None)
   \<and> (\<exists>token. ListProjects (sample_helpers 0 (\<lambda>m. None))
         (healthy\<lparr>run := (\<lambda>q.
            [Inr \<lparr>ProjectID = ''a'', DisplayName = [], Description = [], CreateTime = 1, UpdateTime = 1\<rparr>,
             Inr \<lparr>ProjectID = ''b'', DisplayName = [], Description = [], CreateTime = 2, UpdateTime = 2\<rparr>,
             Inr \<lparr>ProjectID = ''c'', DisplayName = [], Description = [], CreateTime = 3, UpdateTime = 3\<rparr>])\<rparr>)
         \<lparr>ls_PageSize = 2, ls_PageToken = [], ls_Filter = ''project_id == '' @ quoted ''b''\<rparr>
       = Returns (Some \<lparr>Projects =
                          [Some \<lparr>pb_Name = ''projects/b'', pb_DisplayName = [], pb_Description = [],
                                 pb_CreateTime = 2, pb_UpdateTime = 2\<rparr>],
                         NextPageToken = token\<rparr>, None))
   \<and> ListProjects (sample_helpers 0 (\<lambda>m. None))
         (healthy\<lparr>run := (\<lambda>q.
            [Inr \<lparr>ProjectID = ''a'', DisplayName = [], Description = [], CreateTime = 1, UpdateTime = 1\<rparr>,
             Inr \<lparr>ProjectID = ''b'', DisplayName = [], Description = [], CreateTime = 2, UpdateTime = 2\<rparr>,
             Inr \<lparr>ProjectID = ''c'', DisplayName = [], Description = [], CreateTime = 3, UpdateTime = 3\<rparr>])\<rparr>)
         \<lparr>ls_PageSize = 2, ls_PageToken = [], ls_Filter = []\<rparr>
       = Returns (Some \<lparr>Projects =
                          [Some \<lparr>pb_Name = ''projects/a'', pb_DisplayName = [], pb_Description = [],
                                 pb_CreateTime = 1, pb_UpdateTime = 1\<rparr>,
                           Some \<lparr>pb_Name = ''projects/b'', pb_DisplayName = [], pb_Description = [],
                                 pb_CreateTime = 2, pb_UpdateTime = 2\<rparr>],
                         NextPageToken = ''1''\<rparr>, None)
   \<and> int (length [Some \<lparr>pb_Name = ''projects/a'', pb_DisplayName = [], pb_Description = [],
                          pb_CreateTime = 1, pb_UpdateTime = 1\<rparr>,
                    Some \<lparr>pb_Name = ''projects/b'', pb_DisplayName = [], pb_Description = [],
                          pb_CreateTime = 2, pb_UpdateTime = 2\<rparr>])
       \<le> boundPageSize (sample_helpers 0 (\<lambda>m. None)) 2
   \<and> ListProjects (sample_helpers 0 (\<lambda>m. None))
         (healthy\<lparr>run := (\<lambda>q.
            [Inr \<lparr>ProjectID = ''a'', DisplayName = [], Description = [], CreateTime = 1, UpdateTime = 1\<rparr>,
             Inl (Err ''unavailable'')])\<rparr>)
         \<lparr>ls_PageSize = 2, ls_PageToken = [], ls_Filter = []\<rparr>
       = Returns (None, Some (Status Internal ''unavailable''))"
proof -
  let ?h = "sample_helpers 0 (\<lambda>m. None)"
  let ?a = "\<lparr>ProjectID = ''a'', DisplayName = [], Description = [], CreateTime = 1, UpdateTime = 1\<rparr>"
  let ?b = "\<lparr>ProjectID = ''b'', DisplayName = [], Description = [], CreateTime = 2, UpdateTime = 2\<rparr>"
  let ?c = "\<lparr>ProjectID = ''c'', DisplayName = [], Description = [], CreateTime = 3, UpdateTime = 3\<rparr>"
  let ?e1 = "healthy\<lparr>run := (\<lambda>q. [Inr ?a, Inr ?b, Inr ?c])\<rparr>"
  let ?e2 = "healthy\<lparr>run := (\<lambda>q. [Inr ?a, Inl (Err ''unavailable'')])\<rparr>"
  let ?req = "\<lparr>ls_PageSize = 2, ls_PageToken = [], ls_Filter = []\<rparr>"
  let ?reqb = "\<lparr>ls_PageSize = 2, ls_PageToken = [], ls_Filter = ''project_id == '' @ quoted ''b''\<rparr>"
  let ?q = "NewQuery (ProjectEntityName ?h)"
  let ?prg = "\<lambda>vars :: string \<rightharpoonup> string. case vars ''project_id'' of
                 None \<Rightarrow> Inl (Err (''no such attribute: '' @ ''project_id''))
               | Some v \<Rightarrow> Inr (BoolVal (v = ''b''))"
  let ?ma = "Some \<lparr>pb_Name = ''projects/a'', pb_DisplayName = [], pb_Description = [],
                    pb_CreateTime = 1, pb_UpdateTime = 1\<rparr>"
  let ?mb = "Some \<lparr>pb_Name = ''projects/b'', pb_DisplayName = [], pb_Description = [],
                    pb_CreateTime = 2, pb_UpdateTime = 2\<rparr>"
  let ?resp = "\<lparr>Projects = [?ma, ?mb], NextPageToken = ''1''\<rparr>"
  have c0: "newDataStoreClient healthy = None" by (simp add: healthy_def)
  have c1: "newDataStoreClient ?e1 = None" and c2: "newDataStoreClient ?e2 = None"
    by (simp_all add: healthy_def)
  have q: "queryApplyCursor ?h ?q (ls_PageToken ?req) = Inr ?q"
    and qb: "queryApplyCursor ?h ?q (ls_PageToken ?reqb) = Inr ?q"
    by (simp_all add: sample_helpers_def)
  have f: "createFilterOperator ?h (ls_Filter ?req) project_filter_args = Inr None"
    by (simp add: sample_helpers_def sample_compile_def)
  have fb: "createFilterOperator ?h (ls_Filter ?reqb) project_filter_args = Inr (Some ?prg)"
    by (simp add: sample_helpers_def sample_compile_def string_literal_def quoted_def
        project_filter_args_def Let_def)
  have n: "0 < boundPageSize ?h (ls_PageSize ?req)" and nb: "0 < boundPageSize ?h (ls_PageSize ?reqb)"
    by (simp_all add: sample_helpers_def)
  have bp: "boundPageSize ?h 2 = 2" by (simp add: sample_helpers_def)
  txt \<open>The filter excludes two of the three records.\<close>
  have pageb: "ListProjects ?h ?e1 ?reqb = Returns (Some \<lparr>Projects = [?mb], NextPageToken = []\<rparr>, None)"
    by (simp add: ListProjects_def filter_step_def sample_helpers_def sample_compile_def
        string_literal_def quoted_def healthy_def Let_def)
  have scanb: "run ?e1 (Distinct ?q) = map Inr [?a, ?b, ?c]" by (simp add: healthy_def)
  have decb: "\<forall>p \<in> set [?a, ?b, ?c]. decides (Some ?prg) p" by (simp add: decides_def)
  have passb: "filter (passes (Some ?prg)) [?a, ?b, ?c] = [?b]" by (simp add: passes_def)
  have curs: "\<And>it' k. iteratorGetCursor ?h it' k = Inr (if it' = [] then [] else ''1'')"
    by (simp add: sample_helpers_def)
  have msg: "fst (Message ?h ?b) = ?mb" by (simp add: sample_helpers_def)
  from conjunct1 [OF conjunct2 [OF C8_page_bounded [OF c1 qb fb nb]], THEN spec, of "[?a, ?b, ?c]"]
    scanb decb
  obtain it' where "ListProjects ?h ?e1 ?reqb =
      (case iteratorGetCursor ?h it'
              (int (length (take (nat (boundPageSize ?h (ls_PageSize ?reqb)))
                 (filter (passes (Some ?prg)) [?a, ?b, ?c])))) of
         Inl err \<Rightarrow> Returns (None, Some (Status Internal (Error err)))
       | Inr token \<Rightarrow>
           Returns (Some \<lparr>Projects = map (\<lambda>p. fst (Message ?h p))
                              (take (nat (boundPageSize ?h (ls_PageSize ?reqb)))
                                 (filter (passes (Some ?prg)) [?a, ?b, ?c])),
                           NextPageToken = token\<rparr>, None))"
    by blast
  then have exb: "\<exists>token. ListProjects ?h ?e1 ?reqb
      = Returns (Some \<lparr>Projects = [?mb], NextPageToken = token\<rparr>, None)"
    unfolding passb by (simp add: curs msg bp)
  txt \<open>No filter: the page fills before the scan ends.\<close>
  have page: "ListProjects ?h ?e1 ?req = Returns (Some ?resp, None)"
    by (simp add: ListProjects_def filter_step_def sample_helpers_def sample_compile_def
        healthy_def Let_def)
  from conjunct1 [OF C8_page_bounded [OF c1 q f n], THEN spec, of ?resp] page
  have len: "int (length [?ma, ?mb]) \<le> boundPageSize ?h 2" by simp
  have scan: "run ?e2 (Distinct ?q) = map Inr [?a] @ Inl (Err ''unavailable'') # []"
    by (simp add: healthy_def)
  have dec: "\<forall>p \<in> set [?a]. decides None p"
    by (simp add: decides_def)
  have few: "int (length (filter (passes None) [?a])) < boundPageSize ?h (ls_PageSize ?req)"
    by (simp add: passes_def sample_helpers_def)
  from conjunct2 [OF conjunct2 [OF C8_page_bounded [OF c2 q f n]], THEN spec, THEN spec, THEN spec,
      of "[?a]" "Err ''unavailable''" "[]"] scan dec few
  have fault: "ListProjects ?h ?e2 ?req = Returns (None, Some (Status Internal ''unavailable''))"
    by simp
  from c0 n bp pageb exb page len fault show ?thesis by simp
qed

section \<open>Properties of the compile command\<close>

lemma Split_not_Nil: "Split s sep \<noteq> []"
  by (induction s) (auto split: list.splits)

lemma length_Split: "length (Split s sep) = Suc (length (filter (\<lambda>c. c = sep) s))"
proof (induction s)
  case Nil
  show ?case by simp
next
  case (Cons c cs)
  then show ?case using Split_not_Nil [of cs sep]
    by (cases "Split cs sep") auto
qed

lemma Join_Cons: "ps \<noteq> [] \<Longrightarrow> Join (p # ps) sep = p @ sep @ Join ps sep"
  by (cases ps) simp_all

lemma Join_Cons_char: "Join ((c # p) # ps) sep = c # Join (p # ps) sep"
  by (cases ps) simp_all

lemma Join_Split: "Join (Split s sep) [sep] = s"
proof (induction s)
  case Nil
  show ?case by simp
next
  case (Cons c cs)
  show ?case
  proof (cases "c = sep")
    case True
    with Cons Split_not_Nil [of cs sep] show ?thesis by (simp add: Join_Cons)
  next
    case False
    obtain p ps where sp: "Split cs sep = p # ps"
      using Split_not_Nil [of cs sep] by (cases "Split cs sep") auto
    with False Cons show ?thesis by (simp add: Join_Cons_char)
  qed
qed

lemma last_two:
  assumes "2 \<le> length xs"
  shows "\<exists>a b. xs = take (length xs - 2) xs @ [a, b]"
proof -
  have "length (drop (length xs - 2) xs) = 2" using assms by simp
  then obtain a b where "drop (length xs - 2) xs = [a, b]"
    by (cases "drop (length xs - 2) xs"; simp)
       (metis (no_types) length_0_conv length_Suc_conv One_nat_def)
  then have "xs = take (length xs - 2) xs @ [a, b]"
    by (metis append_take_drop_id)
  then show ?thesis by blast
qed

text \<open>
  Claim C9. A name that contains a \<open>/\<close> splits into at least two parts: its parts are
  \<open>pre\<close> followed by the last two, \<open>a\<close> and \<open>b\<close>; the name is these parts joined by \<open>/\<close>, and
  ParentNameFromResourceName returns \<open>pre\<close> joined by \<open>/\<close>, the name without its last two
  parts. A name with no \<open>/\<close> (the empty name too) is a single part, and the slice
  expression panics.
\<close>

theorem C9_parent_name:
  "(CHR ''/'' \<in> set name \<longrightarrow>
      (\<exists>pre a b. Split name (CHR ''/'') = pre @ [a, b]
         \<and> name = Join (pre @ [a, b]) ''/''
         \<and> ParentNameFromResourceName name = Returns (Join pre ''/'')))
   \<and> (CHR ''/'' \<notin> set name \<longrightarrow> ParentNameFromResourceName name = Panics)"
proof (intro conjI impI)
  let ?parts = "Split name (CHR ''/'')"
  assume "CHR ''/'' \<in> set name"
  then have "filter (\<lambda>c. c = CHR ''/'') name \<noteq> []"
    by (auto simp add: filter_empty_conv)
  then have len: "2 \<le> length ?parts"
    by (cases "filter (\<lambda>c. c = CHR ''/'') name") (simp_all add: length_Split)
  from last_two [OF len] obtain a b where ab: "?parts = take (length ?parts - 2) ?parts @ [a, b]"
    by blast
  let ?pre = "take (length ?parts - 2) ?parts"
  have j: "name = Join (?pre @ [a, b]) ''/''"
    using Join_Split [of name "CHR ''/''"] ab by simp
  from len have "nat (int (length ?parts) - 2) = length ?parts - 2" by simp
  with len have r: "ParentNameFromResourceName name = Returns (Join ?pre ''/'')"
    by (simp add: ParentNameFromResourceName_def Let_def)
  from ab j r show "\<exists>pre a b. ?parts = pre @ [a, b] \<and> name = Join (pre @ [a, b]) ''/''
      \<and> ParentNameFromResourceName name = Returns (Join pre ''/'')"
    by blast
next
  assume "CHR ''/'' \<notin> set name"
  then have "filter (\<lambda>c. c = CHR ''/'') name = []"
    by (auto simp add: filter_empty_conv)
  then have "length (Split name (CHR ''/'')) = 1" by (simp add: length_Split)
  then show "ParentNameFromResourceName name = Panics"
    by (simp add: ParentNameFromResourceName_def Let_def)
qed

text \<open>
  C9 at concrete inputs, among them \<open>projects\<close> and the empty string of the claim.
\<close>

theorem C9_parent_name_witness:
  "CHR ''/'' \<in> set ''projects/p/apis/a''
   \<and> ParentNameFromResourceName ''projects/p/apis/a'' = Returns ''projects/p''
   \<and> ParentNameFromResourceName ''projects/p'' = Returns []
   \<and> CHR ''/'' \<notin> set ''projects''
   \<and> ParentNameFromResourceName ''projects'' = Panics
   \<and> ParentNameFromResourceName [] = Panics"
proof -
  have s1: "CHR ''/'' \<in> set ''projects/p/apis/a''" by simp
  have s2: "CHR ''/'' \<notin> set ''projects''" by simp
  have s3: "CHR ''/'' \<notin> set []" by simp
  have sp: "Split ''projects/p/apis/a'' (CHR ''/'') = [''projects'', ''p'', ''apis'', ''a'']"
    by simp
  from conjunct1 [OF C9_parent_name [of "''projects/p/apis/a''"]] s1
  obtain pre a b where "Split ''projects/p/apis/a'' (CHR ''/'') = pre @ [a, b]"
    and r: "ParentNameFromResourceName ''projects/p/apis/a'' = Returns (Join pre ''/'')"
    by blast
  with sp have "butlast (butlast (pre @ [a, b])) = butlast (butlast [''projects'', ''p'', ''apis'', ''a''])"
    by (simp only:)
  then have "pre = [''projects'', ''p'']" by (simp add: butlast_append)
  with r have p1: "ParentNameFromResourceName ''projects/p/apis/a'' = Returns ''projects/p''" by simp
  have p2: "ParentNameFromResourceName ''projects/p'' = Returns []"
    by (simp add: ParentNameFromResourceName_def Let_def)
  from conjunct2 [OF C9_parent_name [of "''projects''"]] s2
  have p3: "ParentNameFromResourceName ''projects'' = Panics" by blast
  from conjunct2 [OF C9_parent_name [of "[]"]] s3
  have p4: "ParentNameFromResourceName [] = Panics" by blast
  from s1 s2 p1 p2 p3 p4 show ?thesis by blast
qed

text \<open>
  Claim C10. When the spec is fetched and \<open>getBytesForSpec\<close> fails on it, compileSpec
  returns nil and has sent no \<open>CreateSpec\<close> request. This holds for every style: in the
  \<open>openapi/v2\<close> block and in the \<open>openapi/v3\<close> block the failed fetch ends the call with
  \<open>return nil\<close>, and a spec of another style is not compiled at all.
\<close>

theorem C10_fetch_failure_returns_nil:
  assumes "segments \<noteq> []"
    and "GetSpec c \<lparr>gs_Name = resourceNameOfSpec c (tl segments), gs_View = SpecView_FULL\<rparr> = Inr spec"
    and "getBytesForSpec c spec = Inl err"
  shows "compileSpec c segments = (Returns None, [])"
  using assms by (simp add: compileSpec_def compileSpec_v3_def Let_def)

text \<open>
  C10 at concrete inputs: a v2 spec and a v3 spec with no contents compile to nothing,
  with no error; the v3 spec with contents is uploaded.
\<close>

theorem C10_fetch_failure_returns_nil_witness:
  "HasPrefix ''openapi/v2+gzip'' ''openapi/v2''
   \<and> getBytesForSpec
         (sample_compile_env \<lparr>sp_Name = ''projects/p/apis/a/versions/v/specs/s'',
                               sp_Style = ''openapi/v2+gzip'', sp_Contents = []\<rparr>)
         \<lparr>sp_Name = ''projects/p/apis/a/versions/v/specs/s'', sp_Style = ''openapi/v2+gzip'', sp_Contents = []\<rparr>
       = Inl (Err ''no contents'')
   \<and> compileSpec
         (sample_compile_env \<lparr>sp_Name = ''projects/p/apis/a/versions/v/specs/s'',
                               sp_Style = ''openapi/v2+gzip'', sp_Contents = []\<rparr>)
         [''projects/p/apis/a/versions/v/specs/s'', ''p'', ''a'', ''v'', ''s'']
       = (Returns None, [])
   \<and> HasPrefix ''openapi/v3+gzip'' ''openapi/v3''
   \<and> compileSpec
         (sample_compile_env \<lparr>sp_Name = ''projects/p/apis/a/versions/v/specs/s'',
                               sp_Style = ''openapi/v3+gzip'', sp_Contents = []\<rparr>)
         [''projects/p/apis/a/versions/v/specs/s'', ''p'', ''a'', ''v'', ''s'']
       = (Returns None, [])
   \<and> compileSpec
         (sample_compile_env \<lparr>sp_Name = ''projects/p/apis/a/versions/v/specs/s'',
                               sp_Style = ''openapi/v3+gzip'', sp_Contents = ''openapi: 3.0.0''\<rparr>)
         [''projects/p/apis/a/versions/v/specs/s'', ''p'', ''a'', ''v'', ''s'']
       = (Returns None,
          [\<lparr>cs_Parent = ''projects/p/apis/a/versions/v'', cs_SpecId = ''openapi.pb'',
            cs_Spec = \<lparr>sp_Name = [], sp_Style = ''openapi/v3+gzip'', sp_Contents = ''openapi: 3.0.0''\<rparr>\<rparr>])"
proof -
  let ?n = "''projects/p/apis/a/versions/v/specs/s''"
  let ?s2 = "\<lparr>sp_Name = ?n, sp_Style = ''openapi/v2+gzip'', sp_Contents = []\<rparr>"
  let ?s3 = "\<lparr>sp_Name = ?n, sp_Style = ''openapi/v3+gzip'', sp_Contents = []\<rparr>"
  let ?s3' = "\<lparr>sp_Name = ?n, sp_Style = ''openapi/v3+gzip'', sp_Contents = ''openapi: 3.0.0''\<rparr>"
  let ?segs = "[?n, ''p'', ''a'', ''v'', ''s'']"
  have ne: "?segs \<noteq> []" by simp
  have g2: "GetSpec (sample_compile_env ?s2)
      \<lparr>gs_Name = resourceNameOfSpec (sample_compile_env ?s2) (tl ?segs), gs_View = SpecView_FULL\<rparr> = Inr ?s2"
    by (simp add: sample_compile_env_def)
  have b2: "getBytesForSpec (sample_compile_env ?s2) ?s2 = Inl (Err ''no contents'')"
    by (simp add: sample_compile_env_def)
  have g3: "GetSpec (sample_compile_env ?s3)
      \<lparr>gs_Name = resourceNameOfSpec (sample_compile_env ?s3) (tl ?segs), gs_View = SpecView_FULL\<rparr> = Inr ?s3"
    by (simp add: sample_compile_env_def)
  have b3: "getBytesForSpec (sample_compile_env ?s3) ?s3 = Inl (Err ''no contents'')"
    by (simp add: sample_compile_env_def)
  have p2: "HasPrefix ''openapi/v2+gzip'' ''openapi/v2''" and p3: "HasPrefix ''openapi/v3+gzip'' ''openapi/v3''"
    by (simp_all add: HasPrefix_def)
  have up: "compileSpec (sample_compile_env ?s3') ?segs
      = (Returns None,
          [\<lparr>cs_Parent = ''projects/p/apis/a/versions/v'', cs_SpecId = ''openapi.pb'',
            cs_Spec = \<lparr>sp_Name = [], sp_Style = ''openapi/v3+gzip'', sp_Contents = ''openapi: 3.0.0''\<rparr>\<rparr>])"
    by (simp add: compileSpec_def compileSpec_v3_def uploadBytesForSpec_def
        ParentNameFromResourceName_def sample_compile_env_def HasPrefix_def Let_def)
  from C10_fetch_failure_returns_nil [OF ne g2 b2] C10_fetch_failure_returns_nil [OF ne g3 b3]
    b2 p2 p3 up
  show ?thesis by simp
qed

end
